theory Spec2Isabelle
  imports Main "HOL-Library.Word"
begin

unbundle bit_operations_syntax

section \<open>Go runtime values used by the key manager\<close>

text \<open>
  A Go \<^verbatim>\<open>error\<close> is modelled by the text and the wrapping structure the program can
  observe: \<^verbatim>\<open>fmt.Errorf("prefix: %w", err)\<close> is \<open>Wrap ''prefix: '' err\<close>, and
  \<^verbatim>\<open>err.Error()\<close> is \<open>Error\<close>.
\<close>

datatype error = Base string | Wrap string error

fun Error :: "error \<Rightarrow> string" where
  "Error (Base m) = m"
| "Error (Wrap p e) = p @ Error e"

text \<open>\<^verbatim>\<open>strings.HasPrefix\<close> and \<^verbatim>\<open>strings.Contains\<close>.\<close>

definition HasPrefix :: "string \<Rightarrow> string \<Rightarrow> bool" where
  "HasPrefix s p = (take (length p) s = p)"

fun Contains :: "string \<Rightarrow> string \<Rightarrow> bool" where
  "Contains [] sub = (sub = [])"
| "Contains (c # cs) sub = (HasPrefix (c # cs) sub \<or> Contains cs sub)"

text \<open>\<^verbatim>\<open>strings.Join\<close>.\<close>

fun Join :: "string list \<Rightarrow> string \<Rightarrow> string" where
  "Join [] sep = []"
| "Join [x] sep = x"
| "Join (x # y # ys) sep = x @ sep @ Join (y # ys) sep"

text \<open>The process environment: \<^verbatim>\<open>os.Getenv\<close> yields the empty string for an unset variable.\<close>

type_synonym environ = "string \<Rightarrow> string option"

definition Getenv :: "environ \<Rightarrow> string \<Rightarrow> string" where
  "Getenv env key = (case env key of None \<Rightarrow> [] | Some v \<Rightarrow> v)"

definition getEnvOrDefault :: "environ \<Rightarrow> string \<Rightarrow> string \<Rightarrow> string" where
  "getEnvOrDefault env key defaultValue =
     (let v = Getenv env key in if v \<noteq> [] then v else defaultValue)"

section \<open>Tier table (internal/policies/dynamic-policies.go)\<close>

record TierLimits =
  TokenLimit :: int
  TokenWindow :: string
  RequestLimit :: int
  RequestWindow :: string
  ModelsAllowed :: "string list"
  TokenLimitPerHour :: int
  TokenLimitPerDay :: int
  MaxConcurrentRequests :: int

definition GetDefaultTier :: "environ \<Rightarrow> string" where
  "GetDefaultTier env =
     (let defaultTier = getEnvOrDefault env ''DEFAULT_TIER'' []
      in if defaultTier \<noteq> [] then defaultTier else ''standard'')"

definition free_limits :: TierLimits where
  "free_limits = \<lparr>TokenLimit = 2000, TokenWindow = ''1m'', RequestLimit = 60,
     RequestWindow = ''1m'', ModelsAllowed = [''simulator-model''],
     TokenLimitPerHour = 10000, TokenLimitPerDay = 50000, MaxConcurrentRequests = 5\<rparr>"

definition standard_limits :: TierLimits where
  "standard_limits = \<lparr>TokenLimit = 10000, TokenWindow = ''1m'', RequestLimit = 120,
     RequestWindow = ''1m'', ModelsAllowed = [''simulator-model'', ''qwen3-0-6b-instruct''],
     TokenLimitPerHour = 50000, TokenLimitPerDay = 500000, MaxConcurrentRequests = 10\<rparr>"

definition premium_limits :: TierLimits where
  "premium_limits = \<lparr>TokenLimit = 50000, TokenWindow = ''1m'', RequestLimit = 600,
     RequestWindow = ''1m'',
     ModelsAllowed = [''simulator-model'', ''qwen3-0-6b-instruct'', ''premium-models''],
     TokenLimitPerHour = 200000, TokenLimitPerDay = 2000000, MaxConcurrentRequests = 25\<rparr>"

definition unlimited_limits :: TierLimits where
  "unlimited_limits = \<lparr>TokenLimit = - 1, TokenWindow = ''1h'', RequestLimit = - 1,
     RequestWindow = ''1h'', ModelsAllowed = [''*''],
     TokenLimitPerHour = - 1, TokenLimitPerDay = - 1, MaxConcurrentRequests = - 1\<rparr>"

text \<open>
  \<^verbatim>\<open>GetTierLimits\<close> calls itself in the \<^verbatim>\<open>default\<close> branch of its switch, with no
  bound on the depth. The model is a partial function: \<open>None\<close> stands for a call that
  never returns (in Go the goroutine stack overflows). The warning it logs is not part
  of the model.
\<close>

partial_function (option) GetTierLimits :: "environ \<Rightarrow> string \<Rightarrow> TierLimits option" where
  "GetTierLimits env tier =
     (let tier = (if tier = [] then GetDefaultTier env else tier)
      in if tier = ''free'' then Some free_limits
         else if tier = ''standard'' then Some standard_limits
         else if tier = ''premium'' then Some premium_limits
         else if tier = ''unlimited'' then Some unlimited_limits
         else GetTierLimits env (GetDefaultTier env))"

declare GetTierLimits.simps [code]

text \<open>The names the switch of \<^verbatim>\<open>GetTierLimits\<close> has a case for.\<close>

definition tier_table :: "string list" where
  "tier_table = [''free'', ''standard'', ''premium'', ''unlimited'']"

section \<open>Credential generator\<close>

text \<open>
  \<^verbatim>\<open>base64.URLEncoding.EncodeToString\<close> of the Go standard library (RFC 4648, section 5,
  with \<^verbatim>\<open>=\<close> padding): three bytes become four characters of the URL-safe alphabet.
\<close>

definition encodeURL :: string where
  "encodeURL = ''ABCDEFGHIJKLMNOPQRSTUVWXYZabcdefghijklmnopqrstuvwxyz0123456789-_''"

definition b64 :: "8 word \<Rightarrow> char" where
  "b64 v = encodeURL ! unat (v AND 63)"

fun EncodeToString :: "8 word list \<Rightarrow> string" where
  "EncodeToString [] = []"
| "EncodeToString [a] =
     [b64 (drop_bit 2 a), b64 (push_bit 4 (a AND 3)), CHR ''='', CHR ''='']"
| "EncodeToString [a, b] =
     [b64 (drop_bit 2 a), b64 (push_bit 4 (a AND 3) OR drop_bit 4 b),
      b64 (push_bit 2 (b AND 15)), CHR ''='']"
| "EncodeToString (a # b # c # rest) =
     [b64 (drop_bit 2 a), b64 (push_bit 4 (a AND 3) OR drop_bit 4 b),
      b64 (push_bit 2 (b AND 15) OR drop_bit 6 c), b64 (c AND 63)] @ EncodeToString rest"

text \<open>
  \<^verbatim>\<open>crypto/rand\<close>: the source either fails, or fills the whole buffer with the next
  bytes of its stream.
\<close>

record entropy =
  rand_fails :: "string option"
  rand_stream :: "nat \<Rightarrow> 8 word"
  rand_pos :: nat

definition rand_Read :: "entropy \<Rightarrow> nat \<Rightarrow> (error + 8 word list) \<times> entropy" where
  "rand_Read src n =
     (case rand_fails src of
        Some m \<Rightarrow> (Inl (Base m), src)
      | None \<Rightarrow> (Inr (map (rand_stream src) [rand_pos src ..< rand_pos src + n]),
                 src\<lparr>rand_pos := rand_pos src + n\<rparr>))"

text \<open>
  \<^verbatim>\<open>generateSecureToken\<close> returns a string and an error; \<^verbatim>\<open>make\<close> with a negative
  length and a slice expression beyond the end of the string panic at run time.
\<close>

datatype token_result = TokenOk string | TokenErr error | TokenPanic string

definition generateSecureToken :: "entropy \<Rightarrow> int \<Rightarrow> token_result \<times> entropy" where
  "generateSecureToken src len =
     (if len < 0 then (TokenPanic ''makeslice: len out of range'', src)
      else case rand_Read src (nat len) of
             (Inl err, src') \<Rightarrow> (TokenErr err, src')
           | (Inr bytes, src') \<Rightarrow>
               (let s = EncodeToString bytes
                in if nat len \<le> length s then (TokenOk (take (nat len) s), src')
                   else (TokenPanic ''slice bounds out of range'', src')))"

section \<open>The external stores\<close>

text \<open>
  Modelled from the spec: the entity store and the policy store of its sections 6 and 9,
  which are the Kubernetes API server and not code of the repository. The key manager
  keeps no state of its own: teams and API keys are Kubernetes Secrets of one namespace,
  enforcement policies are Kuadrant custom resources of the same namespace (\<^verbatim>\<open>main\<close>
  sets the policy engine's namespace to the key namespace). The stores are in-memory
  lists with the behaviour of the Kubernetes API that the program relies on: create
  fails on an existing name, get, update and delete fail on a missing one, an update
  must carry the current resource version, and a request for an API version the cluster
  does not serve fails. Every call is recorded in \<open>calls\<close>, and \<open>faults\<close> lets a call
  fail with a given message without touching the store.
\<close>

definition quote :: "string \<Rightarrow> string" where
  "quote s = CHR 0x22 # s @ [CHR 0x22]"

record Secret =
  Name :: string
  Labels :: "(string \<times> string) list"
  Annotations :: "(string \<times> string) list"
  StringData :: "(string \<times> string) list"

text \<open>Indexing a Go map of strings: the empty string for a missing key.\<close>

definition lookup :: "(string \<times> string) list \<Rightarrow> string \<Rightarrow> string" where
  "lookup m k = (case map_of m k of None \<Rightarrow> [] | Some v \<Rightarrow> v)"

text \<open>
  A label selector \<^verbatim>\<open>k1=v1,k2=v2\<close> as the list of its equality requirements (the
  identifiers the program formats into selectors are taken to be plain label values).
\<close>

type_synonym selector = "(string \<times> string) list"

definition matches :: "selector \<Rightarrow> Secret \<Rightarrow> bool" where
  "matches sel s = list_all (\<lambda>(k, v). map_of (Labels s) k = Some v) sel"

record GroupVersionResource =
  Group :: string
  Version :: string
  Resource :: string

text \<open>
  The fields of the \<^verbatim>\<open>unstructured.Unstructured\<close> manifests the policy engine builds: one
  entry under \<^verbatim>\<open>spec.limits\<close> with one rate, one counter and one predicate.
\<close>

record Policy =
  apiVersion :: string
  kind :: string
  pol_name :: string
  pol_labels :: "(string \<times> string) list"
  pol_annotations :: "(string \<times> string) list"
  targetRef_name :: string
  limit_key :: string
  rate_limit :: int
  rate_window :: string
  counter_expression :: string
  when_predicate :: string
  resourceVersion :: "nat option"
  uid :: "nat option"

datatype api_call =
    SecretGet string
  | SecretCreate Secret
  | SecretDelete string
  | SecretList selector
  | SecretDeleteCollection selector
  | PolicyCreate GroupVersionResource Policy
  | PolicyGet GroupVersionResource string
  | PolicyUpdate GroupVersionResource Policy
  | PolicyDelete GroupVersionResource string

record world =
  environ :: environ
  now :: string
  rng :: entropy
  sha256 :: "string \<Rightarrow> 256 word"
  secrets :: "Secret list"
  policies :: "((string \<times> string) \<times> Policy) list"
  served :: "GroupVersionResource list"
  faults :: "api_call \<Rightarrow> string option"
  next_id :: nat
  calls :: "api_call list"

text \<open>
  \<open>now\<close> is \<^verbatim>\<open>time.Now().Format(time.RFC3339)\<close>, \<open>sha256\<close> is \<^verbatim>\<open>crypto/sha256\<close> (left
  abstract), \<open>served\<close> lists the API versions of the policy resources the cluster serves,
  and a stored policy is filed under the group and plural name of its resource.
\<close>

definition called :: "world \<Rightarrow> api_call \<Rightarrow> world" where
  "called w c = w\<lparr>calls := calls w @ [c]\<rparr>"

subsection \<open>Secrets (\<^verbatim>\<open>clientset.CoreV1().Secrets(namespace)\<close>)\<close>

definition secret_Get :: "world \<Rightarrow> string \<Rightarrow> (error + Secret) \<times> world" where
  "secret_Get w name =
     (let w' = called w (SecretGet name)
      in case faults w (SecretGet name) of
           Some m \<Rightarrow> (Inl (Base m), w')
         | None \<Rightarrow>
             (case find (\<lambda>s. Name s = name) (secrets w) of
                None \<Rightarrow> (Inl (Base (''secrets '' @ quote name @ '' not found'')), w')
              | Some s \<Rightarrow> (Inr s, w')))"

definition secret_Create :: "world \<Rightarrow> Secret \<Rightarrow> (error + Secret) \<times> world" where
  "secret_Create w s =
     (let w' = called w (SecretCreate s)
      in case faults w (SecretCreate s) of
           Some m \<Rightarrow> (Inl (Base m), w')
         | None \<Rightarrow>
             (if list_ex (\<lambda>t. Name t = Name s) (secrets w)
              then (Inl (Base (''secrets '' @ quote (Name s) @ '' already exists'')), w')
              else (Inr s, w'\<lparr>secrets := secrets w @ [s]\<rparr>)))"

definition secret_Delete :: "world \<Rightarrow> string \<Rightarrow> error option \<times> world" where
  "secret_Delete w name =
     (let w' = called w (SecretDelete name)
      in case faults w (SecretDelete name) of
           Some m \<Rightarrow> (Some (Base m), w')
         | None \<Rightarrow>
             (if list_ex (\<lambda>t. Name t = name) (secrets w)
              then (None, w'\<lparr>secrets := filter (\<lambda>t. Name t \<noteq> name) (secrets w)\<rparr>)
              else (Some (Base (''secrets '' @ quote name @ '' not found'')), w')))"

definition secret_List :: "world \<Rightarrow> selector \<Rightarrow> (error + Secret list) \<times> world" where
  "secret_List w sel =
     (let w' = called w (SecretList sel)
      in case faults w (SecretList sel) of
           Some m \<Rightarrow> (Inl (Base m), w')
         | None \<Rightarrow> (Inr (filter (matches sel) (secrets w)), w'))"

definition secret_DeleteCollection :: "world \<Rightarrow> selector \<Rightarrow> error option \<times> world" where
  "secret_DeleteCollection w sel =
     (let w' = called w (SecretDeleteCollection sel)
      in case faults w (SecretDeleteCollection sel) of
           Some m \<Rightarrow> (Some (Base m), w')
         | None \<Rightarrow> (None, w'\<lparr>secrets := filter (\<lambda>t. \<not> matches sel t) (secrets w)\<rparr>))"

subsection \<open>Policies (\<^verbatim>\<open>KuadrantClient.Resource(gvr).Namespace(namespace)\<close>)\<close>

definition rkey :: "GroupVersionResource \<Rightarrow> string \<times> string" where
  "rkey gvr = (Group gvr, Resource gvr)"

definition stored_at :: "GroupVersionResource \<Rightarrow> string \<Rightarrow> (string \<times> string) \<times> Policy \<Rightarrow> bool" where
  "stored_at gvr name e = (fst e = rkey gvr \<and> pol_name (snd e) = name)"

definition not_served :: error where
  "not_served = Base ''the server could not find the requested resource''"

definition policy_not_found :: "GroupVersionResource \<Rightarrow> string \<Rightarrow> error" where
  "policy_not_found gvr name =
     Base (Resource gvr @ ''.'' @ Group gvr @ '' '' @ quote name @ '' not found'')"

definition policy_already_exists :: "GroupVersionResource \<Rightarrow> string \<Rightarrow> error" where
  "policy_already_exists gvr name =
     Base (Resource gvr @ ''.'' @ Group gvr @ '' '' @ quote name @ '' already exists'')"

definition dyn_Create ::
  "world \<Rightarrow> GroupVersionResource \<Rightarrow> Policy \<Rightarrow> (error + Policy) \<times> world" where
  "dyn_Create w gvr obj =
     (let w' = called w (PolicyCreate gvr obj)
      in case faults w (PolicyCreate gvr obj) of
           Some m \<Rightarrow> (Inl (Base m), w')
         | None \<Rightarrow>
             (if gvr \<notin> set (served w) then (Inl not_served, w')
              else if list_ex (stored_at gvr (pol_name obj)) (policies w)
              then (Inl (policy_already_exists gvr (pol_name obj)), w')
              else (let new = obj\<lparr>resourceVersion := Some (next_id w),
                                  uid := Some (Suc (next_id w))\<rparr>
                    in (Inr new, w'\<lparr>policies := policies w @ [(rkey gvr, new)],
                                    next_id := next_id w + 2\<rparr>))))"

definition dyn_Get ::
  "world \<Rightarrow> GroupVersionResource \<Rightarrow> string \<Rightarrow> (error + Policy) \<times> world" where
  "dyn_Get w gvr name =
     (let w' = called w (PolicyGet gvr name)
      in case faults w (PolicyGet gvr name) of
           Some m \<Rightarrow> (Inl (Base m), w')
         | None \<Rightarrow>
             (if gvr \<notin> set (served w) then (Inl not_served, w')
              else case find (stored_at gvr name) (policies w) of
                     None \<Rightarrow> (Inl (policy_not_found gvr name), w')
                   | Some e \<Rightarrow> (Inr (snd e), w')))"

definition dyn_Update ::
  "world \<Rightarrow> GroupVersionResource \<Rightarrow> Policy \<Rightarrow> (error + Policy) \<times> world" where
  "dyn_Update w gvr obj =
     (let w' = called w (PolicyUpdate gvr obj)
      in case faults w (PolicyUpdate gvr obj) of
           Some m \<Rightarrow> (Inl (Base m), w')
         | None \<Rightarrow>
             (if gvr \<notin> set (served w) then (Inl not_served, w')
              else case find (stored_at gvr (pol_name obj)) (policies w) of
                     None \<Rightarrow> (Inl (policy_not_found gvr (pol_name obj)), w')
                   | Some e \<Rightarrow>
                       (if resourceVersion obj = None
                        then (Inl (Base ''metadata.resourceVersion: Invalid value: 0x0: must be specified for an update''), w')
                        else if resourceVersion obj \<noteq> resourceVersion (snd e)
                        then (Inl (Base ''the object has been modified; please apply your changes to the latest version and try again''), w')
                        else if uid obj \<noteq> None \<and> uid obj \<noteq> uid (snd e)
                        then (Inl (Base ''Precondition failed: UID in precondition does not match UID in object meta''), w')
                        else (let new = obj\<lparr>resourceVersion := Some (next_id w),
                                            uid := uid (snd e)\<rparr>
                              in (Inr new,
                                  w'\<lparr>policies :=
                                       map (\<lambda>x. if stored_at gvr (pol_name obj) x
                                                 then (rkey gvr, new) else x) (policies w),
                                     next_id := next_id w + 1\<rparr>)))))"

definition dyn_Delete ::
  "world \<Rightarrow> GroupVersionResource \<Rightarrow> string \<Rightarrow> error option \<times> world" where
  "dyn_Delete w gvr name =
     (let w' = called w (PolicyDelete gvr name)
      in case faults w (PolicyDelete gvr name) of
           Some m \<Rightarrow> (Some (Base m), w')
         | None \<Rightarrow>
             (if gvr \<notin> set (served w) then (Some not_served, w')
              else if list_ex (stored_at gvr name) (policies w)
              then (None, w'\<lparr>policies := filter (\<lambda>x. \<not> stored_at gvr name x) (policies w)\<rparr>)
              else (Some (policy_not_found gvr name), w')))"

section \<open>Policy engine (internal/policies/dynamic-policies.go)\<close>

record PolicyEngine =
  Namespace :: string
  GatewayName :: string
  GatewayNamespace :: string

definition tokenRateLimitGVR :: GroupVersionResource where
  "tokenRateLimitGVR =
     \<lparr>Group = ''kuadrant.io'', Version = ''v1alpha1'', Resource = ''tokenratelimitpolicies''\<rparr>"

text \<open>The version \<^verbatim>\<open>CreateTeamRequestRateLimit\<close> names.\<close>

definition rateLimitGVR :: GroupVersionResource where
  "rateLimitGVR =
     \<lparr>Group = ''kuadrant.io'', Version = ''v1'', Resource = ''ratelimitpolicies''\<rparr>"

text \<open>The version \<^verbatim>\<open>DeleteTeamRequestRateLimit\<close> names.\<close>

definition rateLimitDeleteGVR :: GroupVersionResource where
  "rateLimitDeleteGVR =
     \<lparr>Group = ''kuadrant.io'', Version = ''v1beta3'', Resource = ''ratelimitpolicies''\<rparr>"

definition team_predicate :: "string \<Rightarrow> string" where
  "team_predicate teamID =
     ''has(auth.identity.metadata.labels) && auth.identity.metadata.labels[''
       @ quote ''maas/team-id'' @ ''] == '' @ quote teamID"

definition token_policy :: "PolicyEngine \<Rightarrow> world \<Rightarrow> string \<Rightarrow> string \<Rightarrow> TierLimits \<Rightarrow> Policy" where
  "token_policy pe w teamID policyName limits =
     \<lparr>apiVersion = ''kuadrant.io/v1alpha1'', kind = ''TokenRateLimitPolicy'',
      pol_name = policyName,
      pol_labels = [(''maas/managed-by'', ''key-manager''), (''maas/team-id'', teamID),
                    (''maas/resource-type'', ''team-rate-limit'')],
      pol_annotations = [(''maas/created-at'', now w),
                         (''maas/description'', ''Rate limiting policy for team '' @ teamID)],
      targetRef_name = GatewayName pe,
      limit_key = ''team-'' @ teamID @ ''-tokens'',
      rate_limit = TokenLimit limits, rate_window = TokenWindow limits,
      counter_expression = ''auth.identity.userid'',
      when_predicate = team_predicate teamID,
      resourceVersion = None, uid = None\<rparr>"

definition request_policy :: "PolicyEngine \<Rightarrow> world \<Rightarrow> string \<Rightarrow> string \<Rightarrow> TierLimits \<Rightarrow> Policy" where
  "request_policy pe w teamID policyName limits =
     \<lparr>apiVersion = ''kuadrant.io/v1'', kind = ''RateLimitPolicy'',
      pol_name = policyName,
      pol_labels = [(''maas/managed-by'', ''key-manager''), (''maas/team-id'', teamID),
                    (''maas/resource-type'', ''team-request-limit'')],
      pol_annotations = [(''maas/created-at'', now w),
                         (''maas/description'', ''Request rate limiting policy for team '' @ teamID)],
      targetRef_name = GatewayName pe,
      limit_key = ''team-'' @ teamID @ ''-requests'',
      rate_limit = RequestLimit limits, rate_window = RequestWindow limits,
      counter_expression = ''auth.identity.userid'',
      when_predicate = team_predicate teamID,
      resourceVersion = None, uid = None\<rparr>"

text \<open>
  The block ``create the policy using dynamic client (or update if it exists)'', which
  \<^verbatim>\<open>CreateTeamTokenRateLimit\<close> and \<^verbatim>\<open>CreateTeamRequestRateLimit\<close> both end with; the two
  copies differ in the resource and in the kind named in the messages.
\<close>

definition create_or_update ::
  "world \<Rightarrow> GroupVersionResource \<Rightarrow> string \<Rightarrow> Policy \<Rightarrow> error option \<times> world" where
  "create_or_update w gvr kindName policy =
     (case dyn_Create w gvr policy of
        (Inr created, w1) \<Rightarrow> (None, w1)
      | (Inl err, w1) \<Rightarrow>
          (if Contains (Error err) ''already exists''
           then (case dyn_Get w1 gvr (pol_name policy) of
                   (Inl getErr, w2) \<Rightarrow>
                     (Some (Wrap (''failed to get existing '' @ kindName @ '' for update: '') getErr), w2)
                 | (Inr existing, w2) \<Rightarrow>
                     (case dyn_Update w2 gvr
                             (policy\<lparr>resourceVersion := resourceVersion existing,
                                     uid := uid existing\<rparr>) of
                        (Inl updateErr, w3) \<Rightarrow>
                          (Some (Wrap (''failed to update existing '' @ kindName @ '': '') updateErr), w3)
                      | (Inr updated, w3) \<Rightarrow> (None, w3)))
           else (Some (Wrap (''failed to create '' @ kindName @ '': '') err), w1)))"

definition CreateTeamTokenRateLimit ::
  "PolicyEngine \<Rightarrow> world \<Rightarrow> string \<Rightarrow> string \<Rightarrow> TierLimits \<Rightarrow> error option \<times> world" where
  "CreateTeamTokenRateLimit pe w teamID policyName limits =
     (if TokenLimit limits = - 1 then (None, w)
      else if teamID = ''default'' then (None, w)
      else create_or_update w tokenRateLimitGVR ''TokenRateLimitPolicy''
             (token_policy pe w teamID policyName limits))"

definition CreateTeamRequestRateLimit ::
  "PolicyEngine \<Rightarrow> world \<Rightarrow> string \<Rightarrow> string \<Rightarrow> TierLimits \<Rightarrow> error option \<times> world" where
  "CreateTeamRequestRateLimit pe w teamID policyName limits =
     (if RequestLimit limits = - 1 then (None, w)
      else if teamID = ''default'' then (None, w)
      else create_or_update w rateLimitGVR ''RateLimitPolicy''
             (request_policy pe w teamID policyName limits))"

definition CreateTeamRateLimitPolicies ::
  "PolicyEngine \<Rightarrow> world \<Rightarrow> string \<Rightarrow> TierLimits \<Rightarrow> error option \<times> world" where
  "CreateTeamRateLimitPolicies pe w teamID limits =
     (case CreateTeamTokenRateLimit pe w teamID (''team-'' @ teamID @ ''-token-limits'') limits of
        (Some err, w1) \<Rightarrow> (Some (Wrap ''failed to create token rate limit policy: '' err), w1)
      | (None, w1) \<Rightarrow>
          (case CreateTeamRequestRateLimit pe w1 teamID
                  (''team-'' @ teamID @ ''-request-limits'') limits of
             (Some err, w2) \<Rightarrow>
               (Some (Wrap ''failed to create request rate limit policy: '' err), w2)
           | (None, w2) \<Rightarrow> (None, w2)))"

definition DeleteTeamTokenRateLimit :: "PolicyEngine \<Rightarrow> world \<Rightarrow> string \<Rightarrow> error option \<times> world" where
  "DeleteTeamTokenRateLimit pe w policyName =
     (case dyn_Delete w tokenRateLimitGVR policyName of
        (Some err, w1) \<Rightarrow> (Some (Wrap ''failed to delete TokenRateLimitPolicy: '' err), w1)
      | (None, w1) \<Rightarrow> (None, w1))"

definition DeleteTeamRequestRateLimit :: "PolicyEngine \<Rightarrow> world \<Rightarrow> string \<Rightarrow> error option \<times> world" where
  "DeleteTeamRequestRateLimit pe w policyName =
     (case dyn_Delete w rateLimitDeleteGVR policyName of
        (Some err, w1) \<Rightarrow> (Some (Wrap ''failed to delete RateLimitPolicy: '' err), w1)
      | (None, w1) \<Rightarrow> (None, w1))"

text \<open>Both failures are logged as warnings and dropped.\<close>

definition DeleteTeamPolicies :: "PolicyEngine \<Rightarrow> world \<Rightarrow> string \<Rightarrow> error option \<times> world" where
  "DeleteTeamPolicies pe w teamID =
     (let (err1, w1) = DeleteTeamTokenRateLimit pe w (''team-'' @ teamID @ ''-token-limits'');
          (err2, w2) = DeleteTeamRequestRateLimit pe w1 (''team-'' @ teamID @ ''-request-limits'')
      in (None, w2))"

section \<open>Key manager (main package)\<close>

subsection \<open>Formatting and scanning helpers\<close>

text \<open>\<^verbatim>\<open>fmt.Sprintf("%d", n)\<close>.\<close>

definition digit_char :: "nat \<Rightarrow> char" where
  "digit_char d = ''0123456789'' ! (d mod 10)"

fun decimal :: "nat \<Rightarrow> string" where
  "decimal n = (if n < 10 then [digit_char n] else decimal (n div 10) @ [digit_char (n mod 10)])"

definition Sprintf_d :: "int \<Rightarrow> string" where
  "Sprintf_d n = (if n < 0 then CHR ''-'' # decimal (nat (- n)) else decimal (nat n))"

text \<open>
  \<^verbatim>\<open>fmt.Sscanf(s, "%d", &v)\<close> with the result ignored. The scanner skips leading space
  (the characters for which its \<^verbatim>\<open>isSpace\<close> holds, given here by their UTF-8 bytes) and
  stops with an error at a newline; it then reads a sign and decimal digits. \<open>v\<close> keeps
  its old value when the scan fails or the number does not fit an \<^verbatim>\<open>int\<close>.
\<close>

definition is_digit :: "char \<Rightarrow> bool" where
  "is_digit c = (c \<in> set ''0123456789'')"

text \<open>The one-byte spaces other than the newline: tab, vertical tab, form feed, return, blank.\<close>

definition is_blank :: "char \<Rightarrow> bool" where
  "is_blank c = (c = CHR 0x09 \<or> c = CHR 0x0B \<or> c = CHR 0x0C \<or> c = CHR 0x0D \<or> c = CHR 0x20)"

text \<open>The number of bytes of the space at the head of the string, 0 if there is none.\<close>

definition space_width :: "string \<Rightarrow> nat" where
  "space_width s =
     (case s of
        [] \<Rightarrow> 0
      | a # r \<Rightarrow>
          if is_blank a then 1
          else (case r of
                  [] \<Rightarrow> 0
                | b # r' \<Rightarrow>
                    if a = CHR 0xC2 \<and> (b = CHR 0x85 \<or> b = CHR 0xA0) then 2
                    else (case r' of
                            [] \<Rightarrow> 0
                          | c # r'' \<Rightarrow>
                              if (a = CHR 0xE1 \<and> b = CHR 0x9A \<and> c = CHR 0x80)
                                 \<or> (a = CHR 0xE2 \<and> b = CHR 0x80
                                      \<and> ((0x80::nat) \<le> of_char c \<and> (of_char c :: nat) \<le> 0x8A
                                           \<or> c = CHR 0xA8 \<or> c = CHR 0xA9 \<or> c = CHR 0xAF))
                                 \<or> (a = CHR 0xE2 \<and> b = CHR 0x81 \<and> c = CHR 0x9F)
                                 \<or> (a = CHR 0xE3 \<and> b = CHR 0x80 \<and> c = CHR 0x80)
                              then 3 else 0)))"

text \<open>\<^verbatim>\<open>SkipSpace\<close>: \<open>None\<close> is the error ``unexpected newline''. The first argument bounds
  the number of steps by the length of the input.\<close>

fun SkipSpace :: "nat \<Rightarrow> string \<Rightarrow> string option" where
  "SkipSpace 0 s = Some s"
| "SkipSpace (Suc n) s =
     (case s of
        [] \<Rightarrow> Some []
      | c # cs \<Rightarrow>
          if c = CHR 0x0A then None
          else if space_width s = 0 then Some s
          else SkipSpace n (drop (space_width s) s))"

definition digits_value :: "string \<Rightarrow> nat" where
  "digits_value ds = foldl (\<lambda>acc c. 10 * acc + (of_char c - 48)) 0 ds"

definition Sscanf_d :: "string \<Rightarrow> int \<Rightarrow> int" where
  "Sscanf_d s old =
     (case SkipSpace (length s) s of
        None \<Rightarrow> old
      | Some s1 \<Rightarrow>
          (let neg = (case s1 of c # r \<Rightarrow> c = CHR ''-'' | [] \<Rightarrow> False);
               s2 = (case s1 of c # r \<Rightarrow> if c = CHR ''-'' \<or> c = CHR ''+'' then r else s1
                     | [] \<Rightarrow> s1);
               ds = takeWhile is_digit s2;
               v = (if neg then - int (digits_value ds) else int (digits_value ds))
           in if ds = [] then old
              else if - (2 ^ 63) \<le> v \<and> v < 2 ^ 63 then v else old))"

text \<open>Integer division of Go truncates toward zero.\<close>

definition quo :: "int \<Rightarrow> int \<Rightarrow> int" where
  "quo a b = sgn a * sgn b * (\<bar>a\<bar> div \<bar>b\<bar>)"

text \<open>\<^verbatim>\<open>hex.EncodeToString(hasher.Sum(nil))\<close>: the 64 hexadecimal digits of the digest.\<close>

definition hex_EncodeToString :: "256 word \<Rightarrow> string" where
  "hex_EncodeToString h =
     map (\<lambda>i. ''0123456789abcdef'' ! unat (drop_bit (4 * (63 - i)) h AND 15)) [0..<64]"

definition keyHash :: "world \<Rightarrow> string \<Rightarrow> string" where
  "keyHash w apiKey = hex_EncodeToString (sha256 w apiKey)"

subsection \<open>Identifier validation\<close>

definition lower_alnum :: "char \<Rightarrow> bool" where
  "lower_alnum c = (c \<in> set ''abcdefghijklmnopqrstuvwxyz0123456789'')"

text \<open>The regular expression \<^verbatim>\<open>^[a-z0-9]([a-z0-9-]*[a-z0-9])?$\<close>.\<close>

definition validPattern :: "string \<Rightarrow> bool" where
  "validPattern s =
     (case s of
        [] \<Rightarrow> False
      | c # cs \<Rightarrow> lower_alnum c \<and> lower_alnum (last (c # cs))
                 \<and> list_all (\<lambda>x. lower_alnum x \<or> x = CHR ''-'') cs)"

definition isValidUserID :: "string \<Rightarrow> bool" where
  "isValidUserID userID =
     (if length userID = 0 \<or> length userID > 63 then False else validPattern userID)"

definition isValidTeamID :: "string \<Rightarrow> bool" where
  "isValidTeamID teamID = isValidUserID teamID"

subsection \<open>Configuration, requests and responses\<close>

text \<open>
  The fields of \<^verbatim>\<open>KeyManager\<close> that the handlers below read. \<^verbatim>\<open>main\<close> is the only place
  that builds a \<^verbatim>\<open>KeyManager\<close>, and it sets \<^verbatim>\<open>policyEngine\<close> exactly when
  \<^verbatim>\<open>enablePolicyMgmt\<close> holds, so the test \<^verbatim>\<open>km.policyEngine != nil\<close> is the flag.
\<close>

record KeyManager =
  keyNamespace :: string
  secretSelectorValue :: string
  enablePolicyMgmt :: bool
  policyEngine :: PolicyEngine
  defaultTeamTier :: string

text \<open>An HTTP answer: the JSON payload of a 200, or a status with its \<^verbatim>\<open>error\<close> text.\<close>

datatype 'a http = OK 'a | Fail nat string

text \<open>
  A handler takes the request as \<^verbatim>\<open>ShouldBindJSON\<close> decoded it; the \<^verbatim>\<open>binding:"required"\<close>
  tags reject a field left at its zero value.
\<close>

definition required_errors :: "(string \<times> string) list \<Rightarrow> string option" where
  "required_errors checked =
     (case filter (\<lambda>(name, v). v = []) checked of
        [] \<Rightarrow> None
      | missing \<Rightarrow>
          Some (Join (map (\<lambda>(name, v). ''Field validation for '' @ name
                               @ '' failed on the required tag'') missing) [CHR 0x0A]))"

record CreateTeamRequest =
  ct_TeamID :: string
  ct_TeamName :: string
  ct_Description :: string
  ct_DefaultTier :: string
  ct_TokenLimit :: int
  ct_RequestLimit :: int
  ct_TimeWindow :: string

record CreateTeamResponse =
  cr_TeamID :: string
  cr_TeamName :: string
  cr_DefaultTier :: string
  cr_PoliciesApplied :: bool
  cr_InheritedLimits :: "string \<times> TierLimits option"

record TeamMember =
  m_UserID :: string
  m_UserEmail :: string
  m_Role :: string
  m_TeamID :: string
  m_TeamName :: string
  m_Tier :: string
  m_DefaultModels :: "string list"
  m_JoinedAt :: string
  m_TokenLimit :: int
  m_RequestLimit :: int
  m_TimeWindow :: string

record CreateTeamKeyRequest =
  ck_UserID :: string
  ck_Alias :: string
  ck_Models :: "string list"
  ck_InheritTeamLimits :: bool
  ck_TokenLimit :: int
  ck_RequestLimit :: int
  ck_TimeWindow :: string
  ck_CustomLimits :: "(string \<times> string) list option"

record InheritedDetails =
  team_hourly_limit :: int
  user_hourly_limit :: int
  models_allowed :: "string list"
  budget_enforcement :: bool
  max_concurrent_requests :: int

record CreateTeamKeyResponse =
  kr_APIKey :: string
  kr_UserID :: string
  kr_TeamID :: string
  kr_SecretName :: string
  kr_ModelsAllowed :: "string list"
  kr_Tier :: string
  kr_TokenLimit :: int
  kr_RequestLimit :: int
  kr_TimeWindow :: string
  kr_InheritedPolicies :: "string \<times> string \<times> InheritedDetails option"
  kr_CustomConstraints :: "(string \<times> string) list"

text \<open>
  \<^verbatim>\<open>json.Marshal\<close> of the custom limits, a Go map whose values are kept as JSON text:
  the encoder writes the keys in the byte order of the strings (the keys are taken to
  need no escaping).
\<close>

fun bytes_less :: "string \<Rightarrow> string \<Rightarrow> bool" where
  "bytes_less [] ys = (ys \<noteq> [])"
| "bytes_less (x # xs) [] = False"
| "bytes_less (x # xs) (y # ys) =
     ((of_char x :: nat) < of_char y \<or> (x = y \<and> bytes_less xs ys))"

fun insert_key :: "string \<times> string \<Rightarrow> (string \<times> string) list \<Rightarrow> (string \<times> string) list" where
  "insert_key e [] = [e]"
| "insert_key e (x # xs) = (if bytes_less (fst x) (fst e) then x # insert_key e xs else e # x # xs)"

definition sorted_keys :: "(string \<times> string) list \<Rightarrow> (string \<times> string) list" where
  "sorted_keys m = foldr insert_key m []"

definition json_Marshal :: "(string \<times> string) list \<Rightarrow> string" where
  "json_Marshal m =
     ''{'' @ Join (map (\<lambda>(k, v). quote k @ '':'' @ v) (sorted_keys m)) '','' @ ''}''"

subsection \<open>Teams\<close>

definition getAvailableTiers :: "KeyManager \<Rightarrow> string list" where
  "getAvailableTiers km = [''free'', ''standard'', ''premium'', ''unlimited'']"

definition getTierLimits ::
  "KeyManager \<Rightarrow> world \<Rightarrow> string \<Rightarrow> (string \<times> TierLimits option) option" where
  "getTierLimits km w tier =
     (if \<not> enablePolicyMgmt km then Some (tier, None)
      else case GetTierLimits (environ w) tier of
             None \<Rightarrow> None
           | Some limits \<Rightarrow> Some (tier, Some limits))"

text \<open>\<^verbatim>\<open>validateTeamRequest\<close> fills in an empty tier through its pointer argument.\<close>

definition validateTeamRequest ::
  "KeyManager \<Rightarrow> world \<Rightarrow> CreateTeamRequest \<Rightarrow> error + CreateTeamRequest" where
  "validateTeamRequest km w req =
     (if \<not> isValidTeamID (ct_TeamID req)
      then Inl (Base ''team_id must contain only lowercase alphanumeric characters and hyphens, start and end with alphanumeric character, and be 1-63 characters long'')
      else if ct_TeamName req = [] then Inl (Base ''team_name is required'')
      else let req = (if ct_DefaultTier req = []
                      then req\<lparr>ct_DefaultTier := getEnvOrDefault (environ w) ''DEFAULT_TIER'' ''standard''\<rparr>
                      else req)
           in if enablePolicyMgmt km \<and> ct_DefaultTier req \<notin> set (getAvailableTiers km)
              then Inl (Base (''invalid tier: '' @ ct_DefaultTier req @ ''. Available tiers: [''
                              @ Join (getAvailableTiers km) '' '' @ '']''))
              else Inr req)"

definition team_config_name :: "string \<Rightarrow> string" where
  "team_config_name teamID = ''team-'' @ teamID @ ''-config''"

definition createTeamConfigSecret ::
  "KeyManager \<Rightarrow> world \<Rightarrow> CreateTeamRequest \<Rightarrow> (error + Secret) \<times> world" where
  "createTeamConfigSecret km w req =
     secret_Create w
       \<lparr>Name = team_config_name (ct_TeamID req),
        Labels = [(''maas/resource-type'', ''team-config''),
                  (''maas/team-id'', ct_TeamID req),
                  (''maas/tier'', ct_DefaultTier req)],
        Annotations = [(''maas/team-name'', ct_TeamName req),
                       (''maas/description'', ct_Description req),
                       (''maas/default-tier'', ct_DefaultTier req),
                       (''maas/token-limit'', Sprintf_d (ct_TokenLimit req)),
                       (''maas/request-limit'', Sprintf_d (ct_RequestLimit req)),
                       (''maas/time-window'', ct_TimeWindow req),
                       (''maas/created-at'', now w)],
        StringData = [(''team_id'', ct_TeamID req), (''team_config'', ''active'')]\<rparr>"

text \<open>
  ``Override with custom limits if provided'': the three \<^verbatim>\<open>if\<close> statements that
  \<^verbatim>\<open>createTeam\<close> and \<^verbatim>\<open>createTeamInternal\<close> run on the limits of the tier.
\<close>

definition override_limits :: "CreateTeamRequest \<Rightarrow> TierLimits \<Rightarrow> TierLimits" where
  "override_limits req limits =
     (let limits = (if ct_TokenLimit req > 0
                    then limits\<lparr>TokenLimit := ct_TokenLimit req\<rparr> else limits);
          limits = (if ct_RequestLimit req > 0
                    then limits\<lparr>RequestLimit := ct_RequestLimit req\<rparr> else limits);
          limits = (if ct_TimeWindow req \<noteq> []
                    then limits\<lparr>TokenWindow := ct_TimeWindow req,
                                RequestWindow := ct_TimeWindow req\<rparr> else limits)
      in limits)"

text \<open>
  The handler of \<^verbatim>\<open>POST /teams\<close>. \<open>None\<close> is a request that never gets its answer,
  because \<^verbatim>\<open>GetTierLimits\<close> does not return.
\<close>

definition createTeam ::
  "KeyManager \<Rightarrow> world \<Rightarrow> CreateTeamRequest \<Rightarrow> (CreateTeamResponse http \<times> world) option" where
  "createTeam km w req0 =
     (case required_errors [(''TeamID'', ct_TeamID req0), (''TeamName'', ct_TeamName req0),
                            (''DefaultTier'', ct_DefaultTier req0)] of
        Some msg \<Rightarrow> Some (Fail 400 msg, w)
      | None \<Rightarrow>
     (case validateTeamRequest km w req0 of
        Inl err \<Rightarrow> Some (Fail 400 (Error err), w)
      | Inr req \<Rightarrow>
     (case secret_Get w (team_config_name (ct_TeamID req)) of
        (Inr existingSecret, w1) \<Rightarrow> Some (Fail 409 ''Team already exists'', w1)
      | (Inl notFound, w1) \<Rightarrow>
     (case createTeamConfigSecret km w1 req of
        (Inl err, w2) \<Rightarrow> Some (Fail 500 ''Failed to create team'', w2)
      | (Inr teamSecret, w2) \<Rightarrow>
     (case (if enablePolicyMgmt km
            then (case GetTierLimits (environ w2) (ct_DefaultTier req) of
                    None \<Rightarrow> None
                  | Some limits \<Rightarrow>
                      Some (CreateTeamRateLimitPolicies (policyEngine km) w2 (ct_TeamID req)
                              (override_limits req limits)))
            else Some (None, w2)) of
        None \<Rightarrow> None
      | Some (Some err, w3) \<Rightarrow>
          Some (Fail 500 ''Failed to apply team policies'',
                snd (secret_Delete w3 (Name teamSecret)))
      | Some (None, w3) \<Rightarrow>
          (case getTierLimits km w3 (ct_DefaultTier req) of
             None \<Rightarrow> None
           | Some inheritedLimits \<Rightarrow>
               Some (OK \<lparr>cr_TeamID = ct_TeamID req, cr_TeamName = ct_TeamName req,
                         cr_DefaultTier = ct_DefaultTier req,
                         cr_PoliciesApplied = enablePolicyMgmt km,
                         cr_InheritedLimits = inheritedLimits\<rparr>, w3)))))))"

text \<open>\<^verbatim>\<open>createTeamInternal\<close>, which \<^verbatim>\<open>main\<close> runs for the default team: the same steps, with the
  error returned to the caller.\<close>

definition createTeamInternal ::
  "KeyManager \<Rightarrow> world \<Rightarrow> CreateTeamRequest \<Rightarrow> (error option \<times> world) option" where
  "createTeamInternal km w req0 =
     (case validateTeamRequest km w req0 of
        Inl err \<Rightarrow> Some (Some (Wrap ''team validation failed: '' err), w)
      | Inr req \<Rightarrow>
     (case secret_Get w (team_config_name (ct_TeamID req)) of
        (Inr existingSecret, w1) \<Rightarrow>
          Some (Some (Base (''team '' @ ct_TeamID req @ '' already exists'')), w1)
      | (Inl notFound, w1) \<Rightarrow>
     (case createTeamConfigSecret km w1 req of
        (Inl err, w2) \<Rightarrow> Some (Some (Wrap ''failed to create team secret: '' err), w2)
      | (Inr teamSecret, w2) \<Rightarrow>
          (if enablePolicyMgmt km
           then (case GetTierLimits (environ w2) (ct_DefaultTier req) of
                   None \<Rightarrow> None
                 | Some limits \<Rightarrow>
                     (case CreateTeamRateLimitPolicies (policyEngine km) w2 (ct_TeamID req)
                             (override_limits req limits) of
                        (Some err, w3) \<Rightarrow>
                          Some (Some (Wrap ''failed to apply team policies: '' err),
                                snd (secret_Delete w3 (Name teamSecret)))
                      | (None, w3) \<Rightarrow> Some (None, w3)))
           else Some (None, w2)))))"

definition team_keys_selector :: "string \<Rightarrow> selector" where
  "team_keys_selector teamID =
     [(''kuadrant.io/apikeys-by'', ''rhcl-keys''), (''maas/team-id'', teamID)]"

definition deleteAllTeamKeys :: "KeyManager \<Rightarrow> world \<Rightarrow> string \<Rightarrow> error option \<times> world" where
  "deleteAllTeamKeys km w teamID = secret_DeleteCollection w (team_keys_selector teamID)"

text \<open>The handler of \<^verbatim>\<open>DELETE /teams/:team_id\<close>; the answer of a 200 names the team.\<close>

definition deleteTeam :: "KeyManager \<Rightarrow> world \<Rightarrow> string \<Rightarrow> string http \<times> world" where
  "deleteTeam km w teamID =
     (case secret_Get w (team_config_name teamID) of
        (Inl err, w1) \<Rightarrow> (Fail 404 ''Team not found'', w1)
      | (Inr teamSecret, w1) \<Rightarrow>
          (let w2 = (if enablePolicyMgmt km
                     then snd (DeleteTeamPolicies (policyEngine km) w1 teamID) else w1);
               w3 = snd (deleteAllTeamKeys km w2 teamID)
           in case secret_Delete w3 (Name teamSecret) of
                (Some err, w4) \<Rightarrow> (Fail 500 ''Failed to delete team'', w4)
              | (None, w4) \<Rightarrow> (OK teamID, w4)))"

text \<open>
  The handler of \<^verbatim>\<open>POST /teams/:team_id/policies/sync\<close>; \<open>bindErr\<close> is the error of
  \<^verbatim>\<open>ShouldBindJSON\<close> on the request body, and the answer of a 200 carries the team, its
  tier and the time.
\<close>

definition syncTeamPolicies ::
  "KeyManager \<Rightarrow> world \<Rightarrow> string \<Rightarrow> string option
     \<Rightarrow> ((string \<times> string \<times> string) http \<times> world) option" where
  "syncTeamPolicies km w teamID bindErr =
     (if \<not> enablePolicyMgmt km then Some (Fail 501 ''Policy management is disabled'', w)
      else case bindErr of
             Some msg \<Rightarrow> Some (Fail 400 msg, w)
           | None \<Rightarrow>
     (case secret_Get w (team_config_name teamID) of
        (Inl err, w1) \<Rightarrow> Some (Fail 404 ''Team not found'', w1)
      | (Inr teamSecret, w1) \<Rightarrow>
          (let tier = lookup (Annotations teamSecret) ''maas/default-tier''
           in case GetTierLimits (environ w1) tier of
                None \<Rightarrow> None
              | Some limits \<Rightarrow>
                  (case CreateTeamRateLimitPolicies (policyEngine km) w1 teamID limits of
                     (Some err, w2) \<Rightarrow> Some (Fail 500 ''Failed to sync team policies'', w2)
                   | (None, w2) \<Rightarrow> Some (OK (teamID, tier, now w2), w2)))))"

subsection \<open>API keys\<close>

definition member_selector :: "string \<Rightarrow> string \<Rightarrow> selector" where
  "member_selector teamID userID =
     [(''kuadrant.io/apikeys-by'', ''rhcl-keys''), (''maas/team-id'', teamID),
      (''maas/user-id'', userID)]"

definition scan_limit :: "Secret \<Rightarrow> string \<Rightarrow> int" where
  "scan_limit secret key =
     (case map_of (Annotations secret) key of None \<Rightarrow> 0 | Some str \<Rightarrow> Sscanf_d str 0)"

definition validateTeamMembershipFromAPIKey ::
  "KeyManager \<Rightarrow> world \<Rightarrow> string \<Rightarrow> string \<Rightarrow> ((error + TeamMember) \<times> world) option" where
  "validateTeamMembershipFromAPIKey km w teamID userID =
     (case secret_List w (member_selector teamID userID) of
        (Inl err, w1) \<Rightarrow> Some (Inl (Wrap ''failed to check user membership: '' err), w1)
      | (Inr [], w1) \<Rightarrow>
          Some (Inl (Base (''user '' @ userID @ '' is not a member of team '' @ teamID)), w1)
      | (Inr (secret # others), w1) \<Rightarrow>
          (let member = \<lparr>m_UserID = userID,
                         m_UserEmail = lookup (Annotations secret) ''maas/user-email'',
                         m_Role = lookup (Labels secret) ''maas/team-role'',
                         m_TeamID = teamID,
                         m_TeamName = lookup (Annotations secret) ''maas/team-name'',
                         m_Tier = lookup (Labels secret) ''maas/tier'',
                         m_DefaultModels = [],
                         m_JoinedAt = [],
                         m_TokenLimit = scan_limit secret ''maas/token-limit'',
                         m_RequestLimit = scan_limit secret ''maas/request-limit'',
                         m_TimeWindow = lookup (Annotations secret) ''maas/time-window''\<rparr>
           in if enablePolicyMgmt km
              then (case GetTierLimits (environ w1) (m_Tier member) of
                      None \<Rightarrow> None
                    | Some limits \<Rightarrow>
                        Some (Inr (member\<lparr>m_DefaultModels := ModelsAllowed limits\<rparr>), w1))
              else Some (Inr member, w1)))"

definition createEnhancedKeySecret ::
  "KeyManager \<Rightarrow> world \<Rightarrow> string \<Rightarrow> CreateTeamKeyRequest \<Rightarrow> string \<Rightarrow> TeamMember
     \<Rightarrow> (error + Secret) \<times> world" where
  "createEnhancedKeySecret km w teamID req apiKey teamMember =
     (let hash = keyHash w apiKey;
          secretName = ''apikey-'' @ ck_UserID req @ ''-'' @ teamID @ ''-'' @ take 8 hash;
          modelsAllowed = Join (ck_Models req) '','';
          modelsAllowed = (if modelsAllowed = [] then Join (m_DefaultModels teamMember) '',''
                           else modelsAllowed);
          tokenLimit = (if ck_TokenLimit req = 0 then m_TokenLimit teamMember
                        else ck_TokenLimit req);
          requestLimit = (if ck_RequestLimit req = 0 then m_RequestLimit teamMember
                          else ck_RequestLimit req);
          timeWindow = (if ck_TimeWindow req = [] then m_TimeWindow teamMember
                        else ck_TimeWindow req)
      in secret_Create w
           \<lparr>Name = secretName,
            Labels = [(''authorino.kuadrant.io/managed-by'', ''authorino''),
                      (''kuadrant.io/apikeys-by'', secretSelectorValue km),
                      (''maas/user-id'', ck_UserID req),
                      (''maas/team-id'', teamID),
                      (''maas/team-role'', m_Role teamMember),
                      (''maas/key-sha256'', take 32 hash),
                      (''maas/tier'', m_Tier teamMember),
                      (''maas/resource-type'', ''team-key'')],
            Annotations = [(''maas/team-name'', m_TeamName teamMember),
                           (''maas/user-email'', m_UserEmail teamMember),
                           (''maas/token-limit'', Sprintf_d tokenLimit),
                           (''maas/request-limit'', Sprintf_d requestLimit),
                           (''maas/time-window'', timeWindow),
                           (''maas/models-allowed'', modelsAllowed),
                           (''maas/tier'', m_Tier teamMember),
                           (''maas/created-at'', now w),
                           (''maas/status'', ''active''),
                           (''kuadrant.io/groups'',
                              ''team-'' @ teamID @ '',tier-'' @ m_Tier teamMember)]
                          @ (if ck_Alias req \<noteq> [] then [(''maas/alias'', ck_Alias req)] else [])
                          @ (case ck_CustomLimits req of
                               None \<Rightarrow> []
                             | Some m \<Rightarrow> if m \<noteq> [] then [(''maas/custom-limits'', json_Marshal m)]
                                         else []),
            StringData = [(''api_key'', apiKey)]\<rparr>)"

definition buildInheritedPolicies ::
  "KeyManager \<Rightarrow> world \<Rightarrow> TeamMember \<Rightarrow> (string \<times> string \<times> InheritedDetails option) option" where
  "buildInheritedPolicies km w teamMember =
     (if \<not> enablePolicyMgmt km then Some (m_Tier teamMember, m_TeamID teamMember, None)
      else case GetTierLimits (environ w) (m_Tier teamMember) of
             None \<Rightarrow> None
           | Some limits \<Rightarrow>
               Some (m_Tier teamMember, m_TeamID teamMember,
                     Some \<lparr>team_hourly_limit = TokenLimitPerHour limits,
                           user_hourly_limit = quo (TokenLimitPerHour limits) 4,
                           models_allowed = ModelsAllowed limits,
                           budget_enforcement = True,
                           max_concurrent_requests = MaxConcurrentRequests limits\<rparr>))"

text \<open>
  The block of \<^verbatim>\<open>createTeamKey\<close> (and of \<^verbatim>\<open>createTeamKeyInternal\<close>) that builds the
  \<^verbatim>\<open>teamMember\<close>: made up from the tier of the default team for the team \<^verbatim>\<open>default\<close>,
  read from an existing key of the user for every other team.
\<close>

definition team_member_info ::
  "KeyManager \<Rightarrow> world \<Rightarrow> string \<Rightarrow> CreateTeamKeyRequest
     \<Rightarrow> ((error + TeamMember) \<times> world) option" where
  "team_member_info km w teamID req =
     (if teamID = ''default''
      then (case GetTierLimits (environ w) (defaultTeamTier km) of
              None \<Rightarrow> None
            | Some limits \<Rightarrow>
                Some (Inr \<lparr>m_UserID = ck_UserID req,
                           m_UserEmail = ck_UserID req @ ''@default.local'',
                           m_Role = ''member'',
                           m_TeamID = teamID,
                           m_TeamName = ''Default Team'',
                           m_Tier = defaultTeamTier km,
                           m_DefaultModels = ModelsAllowed limits,
                           m_JoinedAt = [],
                           m_TokenLimit = TokenLimit limits,
                           m_RequestLimit = RequestLimit limits,
                           m_TimeWindow = TokenWindow limits\<rparr>, w))
      else validateTeamMembershipFromAPIKey km w teamID (ck_UserID req))"

text \<open>
  The handler of \<^verbatim>\<open>POST /teams/:team_id/keys\<close>. A panic inside a handler is answered by
  the recovery middleware of \<^verbatim>\<open>gin.Default()\<close> with an empty 500.
\<close>

definition createTeamKey ::
  "KeyManager \<Rightarrow> world \<Rightarrow> string \<Rightarrow> CreateTeamKeyRequest
     \<Rightarrow> (CreateTeamKeyResponse http \<times> world) option" where
  "createTeamKey km w teamID req =
     (case required_errors [(''UserID'', ck_UserID req)] of
        Some msg \<Rightarrow> Some (Fail 400 msg, w)
      | None \<Rightarrow>
     (case secret_Get w (team_config_name teamID) of
        (Inl err, w1) \<Rightarrow> Some (Fail 404 ''Team not found'', w1)
      | (Inr teamSecret, w1) \<Rightarrow>
     (case team_member_info km w1 teamID req of
        None \<Rightarrow> None
      | Some (Inl err, w2) \<Rightarrow> Some (Fail 403 ''User is not a member of this team'', w2)
      | Some (Inr teamMember, w2) \<Rightarrow>
     (case generateSecureToken (rng w2) 48 of
        (TokenErr err, src) \<Rightarrow> Some (Fail 500 ''Failed to generate API key'', w2\<lparr>rng := src\<rparr>)
      | (TokenPanic msg, src) \<Rightarrow> Some (Fail 500 [], w2\<lparr>rng := src\<rparr>)
      | (TokenOk apiKey, src) \<Rightarrow>
     (case createEnhancedKeySecret km (w2\<lparr>rng := src\<rparr>) teamID req apiKey teamMember of
        (Inl err, w3) \<Rightarrow>
          Some (if Contains (Error err) ''already has an active API key''
                then Fail 409 (Error err) else Fail 500 ''Failed to create API key'', w3)
      | (Inr keySecret, w3) \<Rightarrow>
          (case buildInheritedPolicies km w3 teamMember of
             None \<Rightarrow> None
           | Some inheritedPolicies \<Rightarrow>
               Some (OK \<lparr>kr_APIKey = apiKey,
                         kr_UserID = ck_UserID req,
                         kr_TeamID = teamID,
                         kr_SecretName = Name keySecret,
                         kr_ModelsAllowed = (if ck_Models req = [] then m_DefaultModels teamMember
                                             else ck_Models req),
                         kr_Tier = m_Tier teamMember,
                         kr_TokenLimit = m_TokenLimit teamMember,
                         kr_RequestLimit = m_RequestLimit teamMember,
                         kr_TimeWindow = m_TimeWindow teamMember,
                         kr_InheritedPolicies = inheritedPolicies,
                         kr_CustomConstraints = (case ck_CustomLimits req of
                                                   None \<Rightarrow> [] | Some m \<Rightarrow> m)\<rparr>, w3)))))))"

text \<open>
  The handler of \<^verbatim>\<open>DELETE /delete_key\<close>, which takes the key itself; the answer of a 200
  names the deleted secret.
\<close>

definition deleteKey :: "KeyManager \<Rightarrow> world \<Rightarrow> string \<Rightarrow> string http \<times> world" where
  "deleteKey km w key =
     (case required_errors [(''Key'', key)] of
        Some msg \<Rightarrow> (Fail 400 msg, w)
      | None \<Rightarrow>
     (case secret_List w [(''maas/key-sha256'', take 32 (keyHash w key))] of
        (Inl err, w1) \<Rightarrow> (Fail 500 ''Failed to find API key'', w1)
      | (Inr [], w1) \<Rightarrow> (Fail 404 ''API key not found'', w1)
      | (Inr (first # others), w1) \<Rightarrow>
          (case secret_Delete w1 (Name first) of
             (Some err, w2) \<Rightarrow> (Fail 500 ''Failed to delete API key'', w2)
           | (None, w2) \<Rightarrow> (OK (Name first), w2))))"

section \<open>Observations and example clusters\<close>

text \<open>The calls that went to the policy store.\<close>

fun is_policy_call :: "api_call \<Rightarrow> bool" where
  "is_policy_call (PolicyCreate gvr p) = True"
| "is_policy_call (PolicyGet gvr n) = True"
| "is_policy_call (PolicyUpdate gvr p) = True"
| "is_policy_call (PolicyDelete gvr n) = True"
| "is_policy_call c = False"

definition policy_calls :: "world \<Rightarrow> api_call list" where
  "policy_calls w = filter is_policy_call (calls w)"

text \<open>Resource, name, limit and window of every stored policy.\<close>

definition published_limits :: "world \<Rightarrow> (string \<times> string \<times> int \<times> string) list" where
  "published_limits w =
     map (\<lambda>(k, p). (snd k, pol_name p, rate_limit p, rate_window p)) (policies w)"

text \<open>The world a handler leaves behind when it answers 200.\<close>

definition on_success :: "('a http \<times> world) option \<Rightarrow> world option" where
  "on_success r = (case r of Some (OK a, w) \<Rightarrow> Some w | _ \<Rightarrow> None)"

text \<open>
  The configuration \<^verbatim>\<open>main\<close> builds when no environment variable is set, and an empty
  cluster that serves the two policy resources at the versions the policy engine creates
  them with. The digest of the example cluster is a stand-in; no property below depends
  on it.
\<close>

definition km0 :: KeyManager where
  "km0 = \<lparr>keyNamespace = ''llm'', secretSelectorValue = ''rhcl-keys'', enablePolicyMgmt = True,
           policyEngine = \<lparr>Namespace = ''llm'', GatewayName = ''inference-gateway'',
                           GatewayNamespace = ''llm''\<rparr>,
           defaultTeamTier = ''standard''\<rparr>"

definition cluster0 :: world where
  "cluster0 = \<lparr>environ = Map.empty, now = ''2025-01-01T00:00:00Z'',
               rng = \<lparr>rand_fails = None, rand_stream = (\<lambda>i. of_nat i), rand_pos = 0\<rparr>,
               sha256 = (\<lambda>s. of_nat (length s)),
               secrets = [], policies = [],
               served = [tokenRateLimitGVR, rateLimitGVR],
               faults = (\<lambda>c. None), next_id = 1, calls = []\<rparr>"

text \<open>A policy store that refuses every create, as an admission webhook would.\<close>

definition webhook_denies :: "api_call \<Rightarrow> string option" where
  "webhook_denies c =
     (case c of PolicyCreate gvr p \<Rightarrow> Some ''admission webhook denied the request''
      | _ \<Rightarrow> None)"

text \<open>A cluster that refuses every policy create with the given message and also refuses
  to delete any record, as one whose access rules grant no delete on secrets would.\<close>

definition store_refuses :: "string \<Rightarrow> api_call \<Rightarrow> string option" where
  "store_refuses msg c =
     (case c of PolicyCreate gvr p \<Rightarrow> Some msg
      | SecretDelete n \<Rightarrow> Some ''secrets is forbidden''
      | _ \<Rightarrow> None)"

text \<open>The answer of a handler together with the names of the records it leaves behind.\<close>

definition answer_and_records ::
  "('a http \<times> world) option \<Rightarrow> ('a http \<times> string list) option" where
  "answer_and_records r =
     (case r of None \<Rightarrow> None | Some (a, w) \<Rightarrow> Some (a, map Name (secrets w)))"

definition team_request :: "string \<Rightarrow> string \<Rightarrow> int \<Rightarrow> CreateTeamRequest" where
  "team_request teamID tier tokenLimit =
     \<lparr>ct_TeamID = teamID, ct_TeamName = ''Team'', ct_Description = [],
      ct_DefaultTier = tier, ct_TokenLimit = tokenLimit, ct_RequestLimit = 0,
      ct_TimeWindow = []\<rparr>"

definition key_request :: "string \<Rightarrow> CreateTeamKeyRequest" where
  "key_request userID =
     \<lparr>ck_UserID = userID, ck_Alias = [], ck_Models = [], ck_InheritTeamLimits = True,
      ck_TokenLimit = 0, ck_RequestLimit = 0, ck_TimeWindow = [], ck_CustomLimits = None\<rparr>"

text \<open>The record of an existing team, as far as the handlers read it.\<close>

definition team_record :: "string \<Rightarrow> string \<Rightarrow> Secret" where
  "team_record teamID tier =
     \<lparr>Name = team_config_name teamID,
      Labels = [(''maas/resource-type'', ''team-config''), (''maas/team-id'', teamID),
                (''maas/tier'', tier)],
      Annotations = [(''maas/team-name'', ''Team''), (''maas/default-tier'', tier)],
      StringData = [(''team_id'', teamID), (''team_config'', ''active'')]\<rparr>"

section \<open>Properties of the tier table\<close>

lemma GetTierLimits_known:
  "tier \<in> set tier_table \<Longrightarrow> GetTierLimits env tier =
     Some (if tier = ''free'' then free_limits else if tier = ''standard'' then standard_limits
           else if tier = ''premium'' then premium_limits else unlimited_limits)"
  by (subst GetTierLimits.simps) (auto simp: tier_table_def)

lemma GetTierLimits_fallback:
  assumes "GetDefaultTier env \<in> set tier_table" and "tier \<notin> set tier_table"
  shows "GetTierLimits env tier = GetTierLimits env (GetDefaultTier env)"
proof (cases "tier = []")
  case True
  show ?thesis
    by (subst GetTierLimits.simps, subst (2) GetTierLimits.simps) (simp add: True Let_def)
next
  case False
  with assms show ?thesis
    by (subst GetTierLimits.simps) (auto simp: tier_table_def Let_def)
qed

text \<open>
  With a default tier that the table has, every call returns, after at most one step of
  fallback.
\<close>

lemma GetTierLimits_returns:
  assumes "GetDefaultTier env \<in> set tier_table"
  shows "\<exists>limits. GetTierLimits env tier = Some limits"
proof (cases "tier \<in> set tier_table")
  case True
  then show ?thesis by (simp add: GetTierLimits_known)
next
  case False
  with assms show ?thesis
    by (simp add: GetTierLimits_fallback GetTierLimits_known)
qed

text \<open>
  A call returns only if the tier or the default tier is in the table: partial
  correctness induction over the recursion of \<^verbatim>\<open>GetTierLimits\<close>.
\<close>

lemma GetTierLimits_Some_cases:
  assumes "GetTierLimits env tier = Some y"
  shows "GetDefaultTier env \<in> set tier_table \<or> (tier \<noteq> [] \<and> tier \<in> set tier_table)"
proof (rule GetTierLimits.raw_induct
    [where P = "\<lambda>e t y. GetDefaultTier e \<in> set tier_table \<or> (t \<noteq> [] \<and> t \<in> set tier_table)",
      OF _ assms])
  fix f :: "environ \<Rightarrow> string \<Rightarrow> TierLimits option" and e t and z :: TierLimits
  assume IH: "\<And>e' t' y'. f e' t' = Some y' \<Longrightarrow>
      GetDefaultTier e' \<in> set tier_table \<or> (t' \<noteq> [] \<and> t' \<in> set tier_table)"
  assume step: "(let tier = if t = [] then GetDefaultTier e else t
      in if tier = ''free'' then Some free_limits
         else if tier = ''standard'' then Some standard_limits
         else if tier = ''premium'' then Some premium_limits
         else if tier = ''unlimited'' then Some unlimited_limits
         else f e (GetDefaultTier e)) = Some z"
  show "GetDefaultTier e \<in> set tier_table \<or> (t \<noteq> [] \<and> t \<in> set tier_table)"
  proof (rule ccontr)
    assume no: "\<not> ?thesis"
    with step have "f e (GetDefaultTier e) = Some z"
      by (auto simp: tier_table_def Let_def split: if_splits)
    from IH[OF this] no show False by simp
  qed
qed

lemma GetTierLimits_loops:
  assumes "GetDefaultTier env \<notin> set tier_table"
    and "tier = [] \<or> tier \<notin> set tier_table"
  shows "GetTierLimits env tier = None"
  using GetTierLimits_Some_cases[of env tier] assms by (cases "GetTierLimits env tier") auto

lemma GetDefaultTier_gold: "GetDefaultTier [''DEFAULT_TIER'' \<mapsto> ''gold''] = ''gold''"
  by (simp add: GetDefaultTier_def getEnvOrDefault_def Getenv_def)

text \<open>
  Claim C2. The claim: for every tier name outside the table, \<^verbatim>\<open>GetTierLimits\<close> returns
  the limits of the configured default tier after at most one fallback step, whatever
  the configured default tier name is. The code checks nowhere that the name in
  \<^verbatim>\<open>DEFAULT_TIER\<close> is in the table: with \<^verbatim>\<open>DEFAULT_TIER=gold\<close>, a call for the unknown
  tier \<^verbatim>\<open>bogus\<close> falls back to \<^verbatim>\<open>gold\<close>, which falls back to \<^verbatim>\<open>gold\<close> again, and the call
  never returns. The same holds for the empty tier name.
\<close>

theorem GetTierLimits_unknown_default_diverges:
  "GetTierLimits [''DEFAULT_TIER'' \<mapsto> ''gold''] ''bogus'' = None
   \<and> GetTierLimits [''DEFAULT_TIER'' \<mapsto> ''gold''] [] = None"
  by (simp add: GetTierLimits_loops GetDefaultTier_gold tier_table_def)

section \<open>Properties of the credential generator\<close>

lemma div3_step: "(5 + n) div 3 = Suc (Suc (Suc n) div 3)" for n :: nat
  by presburger

lemma length_EncodeToString: "length (EncodeToString bs) = 4 * ((length bs + 2) div 3)"
  by (induction bs rule: EncodeToString.induct) (simp_all add: div3_step)

lemma length_le_EncodeToString: "length bs \<le> length (EncodeToString bs)"
  unfolding length_EncodeToString by presburger

lemma generateSecureToken_eq:
  assumes "0 \<le> n"
  shows "generateSecureToken src n =
     (case rand_fails src of
        Some m \<Rightarrow> (TokenErr (Base m), src)
      | None \<Rightarrow>
          (TokenOk (take (nat n) (EncodeToString
                     (map (rand_stream src) [rand_pos src ..< rand_pos src + nat n]))),
           src\<lparr>rand_pos := rand_pos src + nat n\<rparr>))"
proof -
  have "nat n \<le> length (EncodeToString (map (rand_stream src) [rand_pos src ..< rand_pos src + nat n]))"
    using length_le_EncodeToString[of "map (rand_stream src) [rand_pos src ..< rand_pos src + nat n]"]
    by simp
  with assms show ?thesis
    by (simp add: generateSecureToken_def rand_Read_def Let_def split: option.splits)
qed

text \<open>
  Claim C10. For a positive length \<open>n\<close>: the encoding of any byte string \<open>bs\<close> has
  \<open>4 * \<lceil>length bs / 3\<rceil>\<close> characters, which is at least \<open>length bs\<close>;
  \<^verbatim>\<open>generateSecureToken\<close> never panics; it returns an error exactly when the random
  source fails; otherwise it returns a token of exactly \<open>n\<close> characters.
\<close>

theorem generateSecureToken_total:
  assumes "0 < n"
  shows "(\<forall>bs. length (EncodeToString bs) = 4 * ((length bs + 2) div 3)
              \<and> length bs \<le> length (EncodeToString bs))
       \<and> (\<forall>msg. fst (generateSecureToken src n) \<noteq> TokenPanic msg)
       \<and> ((\<exists>err. fst (generateSecureToken src n) = TokenErr err) \<longleftrightarrow> rand_fails src \<noteq> None)
       \<and> ((\<exists>s. fst (generateSecureToken src n) = TokenOk s) \<longleftrightarrow> rand_fails src = None)
       \<and> (\<forall>s. fst (generateSecureToken src n) = TokenOk s \<longrightarrow> length s = nat n)"
proof -
  from assms have n: "0 \<le> n" by simp
  have len: "nat n \<le> length (EncodeToString (map (rand_stream src) [rand_pos src ..< rand_pos src + nat n]))"
    using length_le_EncodeToString[of "map (rand_stream src) [rand_pos src ..< rand_pos src + nat n]"]
    by simp
  show ?thesis
    using len
    by (auto simp: generateSecureToken_eq[OF n] length_EncodeToString length_le_EncodeToString
             split: option.splits)
qed

theorem generateSecureToken_total_witness:
  "(0::int) < 48
   \<and> (\<exists>s. fst (generateSecureToken
                \<lparr>rand_fails = None, rand_stream = (\<lambda>i. of_nat i), rand_pos = 0\<rparr> 48) = TokenOk s
          \<and> length s = 48)
   \<and> (\<exists>err. fst (generateSecureToken
                \<lparr>rand_fails = Some ''no entropy'', rand_stream = (\<lambda>i. 0), rand_pos = 0\<rparr> 48)
             = TokenErr err)"
  using generateSecureToken_total[of 48 "\<lparr>rand_fails = None, rand_stream = (\<lambda>i. of_nat i), rand_pos = 0\<rparr>"]
        generateSecureToken_total[of 48 "\<lparr>rand_fails = Some ''no entropy'', rand_stream = (\<lambda>i. 0), rand_pos = 0\<rparr>"]
  by auto

section \<open>Properties of the limit resolution of team creation\<close>

text \<open>
  Claim C7, as the code has it. An override replaces the default of the tier exactly when
  it is strictly positive (a limit) or non-empty (the time window): a limit override of
  zero or below leaves the default, every field without an override keeps the default,
  a time window override sets the token window and the request window, and a default of
  \<open>-1\<close> stays \<open>-1\<close> under every override that is not positive.
\<close>

theorem override_limits_fields:
  "TokenLimit (override_limits req d) =
      (if 0 < ct_TokenLimit req then ct_TokenLimit req else TokenLimit d)
   \<and> RequestLimit (override_limits req d) =
      (if 0 < ct_RequestLimit req then ct_RequestLimit req else RequestLimit d)
   \<and> TokenWindow (override_limits req d) =
      (if ct_TimeWindow req \<noteq> [] then ct_TimeWindow req else TokenWindow d)
   \<and> RequestWindow (override_limits req d) =
      (if ct_TimeWindow req \<noteq> [] then ct_TimeWindow req else RequestWindow d)
   \<and> ModelsAllowed (override_limits req d) = ModelsAllowed d
   \<and> TokenLimitPerHour (override_limits req d) = TokenLimitPerHour d
   \<and> TokenLimitPerDay (override_limits req d) = TokenLimitPerDay d
   \<and> MaxConcurrentRequests (override_limits req d) = MaxConcurrentRequests d
   \<and> (TokenLimit d = - 1 \<and> ct_TokenLimit req \<le> 0 \<longrightarrow> TokenLimit (override_limits req d) = - 1)
   \<and> (RequestLimit d = - 1 \<and> ct_RequestLimit req \<le> 0
        \<longrightarrow> RequestLimit (override_limits req d) = - 1)"
  by (simp add: override_limits_def Let_def)

theorem override_limits_fields_witness:
  "GetTierLimits Map.empty ''free'' = Some free_limits
   \<and> TokenLimit (override_limits
        \<lparr>ct_TeamID = ''t1'', ct_TeamName = ''Team 1'', ct_Description = [],
         ct_DefaultTier = ''free'', ct_TokenLimit = 0, ct_RequestLimit = 0,
         ct_TimeWindow = []\<rparr> free_limits) = 2000
   \<and> TokenLimit (override_limits
        \<lparr>ct_TeamID = ''t2'', ct_TeamName = ''Team 2'', ct_Description = [],
         ct_DefaultTier = ''unlimited'', ct_TokenLimit = - 7, ct_RequestLimit = 0,
         ct_TimeWindow = ''1h''\<rparr> unlimited_limits) = - 1"
  using override_limits_fields[of "\<lparr>ct_TeamID = ''t1'', ct_TeamName = ''Team 1'', ct_Description = [],
         ct_DefaultTier = ''free'', ct_TokenLimit = 0, ct_RequestLimit = 0,
         ct_TimeWindow = []\<rparr>" free_limits]
        override_limits_fields[of "\<lparr>ct_TeamID = ''t2'', ct_TeamName = ''Team 2'', ct_Description = [],
         ct_DefaultTier = ''unlimited'', ct_TokenLimit = - 7, ct_RequestLimit = 0,
         ct_TimeWindow = ''1h''\<rparr>" unlimited_limits]
  by (simp add: GetTierLimits_known tier_table_def free_limits_def unlimited_limits_def)

text \<open>
  The claim as it is written (an override replaces the default if and only if it is
  present and non-zero) fails for a negative override: with tier \<^verbatim>\<open>free\<close> and
  \<^verbatim>\<open>token_limit = -5\<close> the override is not zero, and the resolved token limit is the
  default 2000, not the override.
\<close>

theorem override_limits_negative_counterexample:
  "ct_TokenLimit \<lparr>ct_TeamID = ''t1'', ct_TeamName = ''Team 1'', ct_Description = [],
                  ct_DefaultTier = ''free'', ct_TokenLimit = - 5, ct_RequestLimit = 0,
                  ct_TimeWindow = []\<rparr> \<noteq> 0
   \<and> GetTierLimits Map.empty ''free'' = Some free_limits
   \<and> TokenLimit (override_limits
        \<lparr>ct_TeamID = ''t1'', ct_TeamName = ''Team 1'', ct_Description = [],
         ct_DefaultTier = ''free'', ct_TokenLimit = - 5, ct_RequestLimit = 0,
         ct_TimeWindow = []\<rparr> free_limits) = 2000
   \<and> TokenLimit (override_limits
        \<lparr>ct_TeamID = ''t1'', ct_TeamName = ''Team 1'', ct_Description = [],
         ct_DefaultTier = ''free'', ct_TokenLimit = - 5, ct_RequestLimit = 0,
         ct_TimeWindow = []\<rparr> free_limits) \<noteq> - 5"
  by (simp add: override_limits_def Let_def GetTierLimits_known tier_table_def free_limits_def)

section \<open>Frame properties of the stores\<close>

lemma called_simps [simp]:
  "policies (called w c) = policies w" "secrets (called w c) = secrets w"
  "faults (called w c) = faults w" "environ (called w c) = environ w"
  "served (called w c) = served w" "sha256 (called w c) = sha256 w"
  "next_id (called w c) = next_id w" "rng (called w c) = rng w" "now (called w c) = now w"
  "calls (called w c) = calls w @ [c]"
  by (simp_all add: called_def)

lemma policy_calls_called [simp]:
  "policy_calls (called w c) = (if is_policy_call c then policy_calls w @ [c] else policy_calls w)"
  by (simp add: policy_calls_def)

lemma secret_Get_frame:
  "secret_Get w n = (r, w') \<Longrightarrow> w' = called w (SecretGet n)"
  by (auto simp: secret_Get_def Let_def split: option.splits)

lemma secret_List_frame:
  "secret_List w sel = (r, w') \<Longrightarrow> w' = called w (SecretList sel)"
  by (auto simp: secret_List_def Let_def split: option.splits)

lemma secret_Create_frame:
  "secret_Create w s = (r, w') \<Longrightarrow>
     policies w' = policies w \<and> policy_calls w' = policy_calls w \<and> faults w' = faults w
     \<and> environ w' = environ w \<and> served w' = served w \<and> sha256 w' = sha256 w
     \<and> next_id w' = next_id w \<and> rng w' = rng w \<and> now w' = now w"
  by (auto simp: secret_Create_def Let_def called_def policy_calls_def
      split: option.splits if_splits)

lemma secret_Delete_frame:
  "secret_Delete w n = (r, w') \<Longrightarrow>
     policies w' = policies w \<and> policy_calls w' = policy_calls w \<and> faults w' = faults w
     \<and> environ w' = environ w \<and> served w' = served w \<and> sha256 w' = sha256 w
     \<and> next_id w' = next_id w \<and> rng w' = rng w \<and> now w' = now w"
  by (auto simp: secret_Delete_def Let_def called_def policy_calls_def
      split: option.splits if_splits)

lemma secret_Delete_removes:
  assumes "faults w (SecretDelete n) = None"
  shows "\<not> list_ex (\<lambda>s. Name s = n) (secrets (snd (secret_Delete w n)))"
  using assms by (auto simp: secret_Delete_def Let_def list_ex_iff)

lemma dyn_Create_frame:
  "dyn_Create w gvr p = (r, w') \<Longrightarrow>
     secrets w' = secrets w \<and> faults w' = faults w \<and> environ w' = environ w
     \<and> served w' = served w \<and> sha256 w' = sha256 w \<and> rng w' = rng w \<and> now w' = now w"
  by (auto simp: dyn_Create_def Let_def split: option.splits if_splits)

lemma dyn_Get_frame:
  "dyn_Get w gvr n = (r, w') \<Longrightarrow> w' = called w (PolicyGet gvr n)"
  by (auto simp: dyn_Get_def Let_def split: option.splits if_splits)

lemma dyn_Update_frame:
  "dyn_Update w gvr p = (r, w') \<Longrightarrow>
     secrets w' = secrets w \<and> faults w' = faults w \<and> environ w' = environ w
     \<and> served w' = served w \<and> sha256 w' = sha256 w \<and> rng w' = rng w \<and> now w' = now w"
  by (auto simp: dyn_Update_def Let_def split: option.splits if_splits)

lemma dyn_Delete_frame:
  "dyn_Delete w gvr n = (r, w') \<Longrightarrow>
     secrets w' = secrets w \<and> faults w' = faults w \<and> environ w' = environ w
     \<and> served w' = served w \<and> sha256 w' = sha256 w \<and> rng w' = rng w \<and> now w' = now w"
  by (auto simp: dyn_Delete_def Let_def split: option.splits if_splits)

lemma create_or_update_frame:
  "create_or_update w gvr k p = (r, w') \<Longrightarrow>
     secrets w' = secrets w \<and> faults w' = faults w \<and> environ w' = environ w
     \<and> served w' = served w \<and> sha256 w' = sha256 w \<and> rng w' = rng w \<and> now w' = now w"
  unfolding create_or_update_def
  by (auto dest!: dyn_Create_frame dyn_Get_frame dyn_Update_frame
      split: prod.splits sum.splits if_splits)

lemma CreateTeamRateLimitPolicies_frame:
  "CreateTeamRateLimitPolicies pe w t l = (r, w') \<Longrightarrow>
     secrets w' = secrets w \<and> faults w' = faults w \<and> environ w' = environ w
     \<and> served w' = served w \<and> sha256 w' = sha256 w \<and> rng w' = rng w \<and> now w' = now w"
  unfolding CreateTeamRateLimitPolicies_def CreateTeamTokenRateLimit_def
    CreateTeamRequestRateLimit_def
  by (auto dest!: create_or_update_frame split: prod.splits option.splits if_splits)

lemma createTeamConfigSecret_Inr:
  assumes "createTeamConfigSecret km w req = (Inr s, w')"
  shows "Name s = team_config_name (ct_TeamID req) \<and> faults w' = faults w
         \<and> secrets w' = secrets w @ [s]"
  using assms
  by (auto simp: createTeamConfigSecret_def secret_Create_def Let_def
      split: option.splits if_splits)

lemma createTeamConfigSecret_fresh:
  assumes "createTeamConfigSecret km w req = (Inr s, w')"
  shows "\<not> list_ex (\<lambda>t. Name t = Name s) (secrets w)"
  using assms
  by (auto simp: createTeamConfigSecret_def secret_Create_def Let_def
      split: option.splits if_splits)

lemma secret_Delete_performed:
  assumes "faults w (SecretDelete n) = None" and "secrets w = xs @ [s]" and "Name s = n"
    and "\<not> list_ex (\<lambda>t. Name t = n) xs"
  shows "secrets (snd (secret_Delete w n)) = xs"
  using assms by (auto simp: secret_Delete_def Let_def list_ex_iff filter_id_conv)

lemma secret_Delete_refused:
  assumes "faults w (SecretDelete n) = Some m"
  shows "secrets (snd (secret_Delete w n)) = secrets w"
  using assms by (simp add: secret_Delete_def Let_def)

text \<open>The definitions a closed term is evaluated with.\<close>

lemmas store_defs = secret_Get_def secret_Create_def secret_Delete_def secret_List_def
  secret_DeleteCollection_def dyn_Create_def dyn_Get_def dyn_Update_def dyn_Delete_def
  called_def stored_at_def rkey_def matches_def not_served_def policy_not_found_def
  policy_already_exists_def quote_def

lemmas engine_defs = create_or_update_def CreateTeamTokenRateLimit_def
  CreateTeamRequestRateLimit_def CreateTeamRateLimitPolicies_def DeleteTeamTokenRateLimit_def
  DeleteTeamRequestRateLimit_def DeleteTeamPolicies_def token_policy_def request_policy_def
  tokenRateLimitGVR_def rateLimitGVR_def rateLimitDeleteGVR_def team_predicate_def HasPrefix_def

lemmas manager_defs = createTeam_def validateTeamRequest_def createTeamConfigSecret_def
  override_limits_def getTierLimits_def getAvailableTiers_def team_config_name_def
  required_errors_def isValidTeamID_def isValidUserID_def validPattern_def lower_alnum_def
  deleteTeam_def deleteAllTeamKeys_def team_keys_selector_def syncTeamPolicies_def lookup_def
  createTeamKey_def team_member_info_def validateTeamMembershipFromAPIKey_def
  member_selector_def
  getEnvOrDefault_def Getenv_def Sprintf_d_def digit_char_def

lemmas fixture_defs = km0_def cluster0_def team_request_def key_request_def on_success_def
  published_limits_def webhook_denies_def store_refuses_def answer_and_records_def

lemma GetTierLimits_standard [simp]: "GetTierLimits env ''standard'' = Some standard_limits"
  by (simp add: GetTierLimits_known tier_table_def)

lemma GetTierLimits_unlimited [simp]: "GetTierLimits env ''unlimited'' = Some unlimited_limits"
  by (simp add: GetTierLimits_known tier_table_def)

section \<open>Skipped publication\<close>

lemma skip_unlimited:
  assumes "TokenLimit limits = - 1" "RequestLimit limits = - 1"
  shows "CreateTeamRateLimitPolicies pe w teamID limits = (None, w)"
  using assms
  by (simp add: CreateTeamRateLimitPolicies_def CreateTeamTokenRateLimit_def
      CreateTeamRequestRateLimit_def)

lemma validate_keeps:
  assumes "validateTeamRequest km w req0 = Inr req" "ct_DefaultTier req0 \<noteq> []"
  shows "req = req0"
  using assms by (auto simp: validateTeamRequest_def Let_def split: if_splits)

lemma createTeam_unlimited:
  assumes "createTeam km w req0 = Some (r, w')"
    and "ct_DefaultTier req0 = ''unlimited''"
    and "ct_TokenLimit req0 \<le> 0" and "ct_RequestLimit req0 \<le> 0"
  shows "policies w' = policies w \<and> policy_calls w' = policy_calls w"
proof (cases "validateTeamRequest km w req0")
  case (Inl e)
  with assms(1) show ?thesis
    by (auto simp: createTeam_def split: option.splits)
next
  case (Inr req)
  then have req: "req = req0" using assms(2) validate_keeps by auto
  have ov: "TokenLimit (override_limits req0 unlimited_limits) = - 1"
       "RequestLimit (override_limits req0 unlimited_limits) = - 1"
    using assms(3,4) by (simp_all add: override_limits_def Let_def unlimited_limits_def)
  show ?thesis
    using assms(1) Inr
    unfolding createTeam_def req
    by (auto simp: assms(2) skip_unlimited[OF ov] getTierLimits_def createTeamConfigSecret_def
        dest!: secret_Get_frame secret_Create_frame secret_Delete_frame
        split: option.splits sum.splits prod.splits if_splits)
qed

lemma createTeam_unlimited_returns:
  assumes "ct_DefaultTier req0 = ''unlimited''"
  shows "\<exists>r w'. createTeam km w req0 = Some (r, w')"
proof (cases "validateTeamRequest km w req0")
  case (Inl e)
  then show ?thesis by (auto simp: createTeam_def split: option.splits)
next
  case (Inr req)
  then have req: "req = req0" using assms validate_keeps by auto
  show ?thesis
    using Inr unfolding createTeam_def req
    by (auto simp: assms getTierLimits_def split: option.splits sum.splits prod.splits)
qed

text \<open>
  Claim C4. For every team and limit set, publishing the token policy returns success
  and leaves the world as it was (no call is made, no object is created or updated) when
  the token limit is \<open>-1\<close> or the team is \<^verbatim>\<open>default\<close>, and the same holds for the request
  policy and the request limit. In particular a request to create a team with tier
  \<^verbatim>\<open>unlimited\<close> (whose limit overrides, if any, are not positive, so that the resolved
  limits are those of the tier) is answered, and it leaves the policy store untouched
  and makes no call to it.
\<close>

theorem publish_skips_unlimited_and_default:
  "(TokenLimit limits = - 1 \<or> teamID = ''default''
      \<longrightarrow> CreateTeamTokenRateLimit pe w teamID policyName limits = (None, w))
   \<and> (RequestLimit limits = - 1 \<or> teamID = ''default''
      \<longrightarrow> CreateTeamRequestRateLimit pe w teamID policyName limits = (None, w))
   \<and> (ct_DefaultTier req = ''unlimited'' \<and> ct_TokenLimit req \<le> 0 \<and> ct_RequestLimit req \<le> 0
      \<longrightarrow> (\<exists>r w'. createTeam km w req = Some (r, w')
                  \<and> policies w' = policies w \<and> policy_calls w' = policy_calls w))"
proof -
  have 1: "TokenLimit limits = - 1 \<or> teamID = ''default''
      \<longrightarrow> CreateTeamTokenRateLimit pe w teamID policyName limits = (None, w)"
    by (simp add: CreateTeamTokenRateLimit_def)
  have 2: "RequestLimit limits = - 1 \<or> teamID = ''default''
      \<longrightarrow> CreateTeamRequestRateLimit pe w teamID policyName limits = (None, w)"
    by (simp add: CreateTeamRequestRateLimit_def)
  have 3: "ct_DefaultTier req = ''unlimited'' \<and> ct_TokenLimit req \<le> 0 \<and> ct_RequestLimit req \<le> 0
      \<longrightarrow> (\<exists>r w'. createTeam km w req = Some (r, w')
                  \<and> policies w' = policies w \<and> policy_calls w' = policy_calls w)"
    using createTeam_unlimited_returns[of req km w] createTeam_unlimited[of km w req]
    by blast
  from 1 2 3 show ?thesis by blast
qed

theorem publish_skips_unlimited_and_default_witness:
  "CreateTeamTokenRateLimit (policyEngine km0) cluster0 ''t1'' ''team-t1-token-limits''
      unlimited_limits = (None, cluster0)
   \<and> CreateTeamRequestRateLimit (policyEngine km0) cluster0 ''default''
      ''team-default-request-limits'' standard_limits = (None, cluster0)
   \<and> (\<exists>r w'. createTeam km0 cluster0 (team_request ''t1'' ''unlimited'' 0) = Some (r, w')
            \<and> policies w' = [] \<and> policy_calls w' = [])"
  using publish_skips_unlimited_and_default
          [of unlimited_limits "''t1''" "policyEngine km0" cluster0 "''team-t1-token-limits''"
              "team_request ''t1'' ''unlimited'' 0" km0]
        publish_skips_unlimited_and_default
          [of standard_limits "''default''" "policyEngine km0" cluster0
              "''team-default-request-limits''" "team_request ''t1'' ''unlimited'' 0" km0]
  by (simp add: unlimited_limits_def team_request_def cluster0_def policy_calls_def)

section \<open>Compensating delete\<close>

text \<open>
  Claim C1, as the code has it. A request to create a team passes validation, the team
  is absent, its record is written, and publishing the policies then fails with \<open>err\<close>.
  Then the handler answers 500 with the fixed text ``Failed to apply team policies'',
  whatever \<open>err\<close> is; \<^verbatim>\<open>createTeamInternal\<close> returns \<open>err\<close> wrapped with the prefix ``failed to
  apply team policies''; and the last call either of them makes is the delete of the
  record it wrote, whose result is dropped. If the store performs that delete, the
  records are those from before the request and none has the name of the team; if the
  store refuses it, the record that was written stays, and the answer is the same.
\<close>

theorem createTeam_publish_failure:
  assumes bind: "required_errors [(''TeamID'', ct_TeamID req0), (''TeamName'', ct_TeamName req0),
                            (''DefaultTier'', ct_DefaultTier req0)] = None"
    and valid: "validateTeamRequest km w req0 = Inr req"
    and absent: "secret_Get w (team_config_name (ct_TeamID req)) = (Inl notFound, w1)"
    and written: "createTeamConfigSecret km w1 req = (Inr teamSecret, w2)"
    and mgmt: "enablePolicyMgmt km"
    and tier: "GetTierLimits (environ w2) (ct_DefaultTier req) = Some limits"
    and publish: "CreateTeamRateLimitPolicies (policyEngine km) w2 (ct_TeamID req)
                    (override_limits req limits) = (Some err, w3)"
  shows "\<exists>w'. createTeam km w req0 = Some (Fail 500 ''Failed to apply team policies'', w')
            \<and> createTeamInternal km w req0
                = Some (Some (Wrap ''failed to apply team policies: '' err), w')
            \<and> calls w' = calls w3 @ [SecretDelete (team_config_name (ct_TeamID req))]
            \<and> (faults w (SecretDelete (team_config_name (ct_TeamID req))) = None
                \<longrightarrow> \<not> list_ex (\<lambda>s. Name s = team_config_name (ct_TeamID req)) (secrets w')
                    \<and> secrets w' = secrets w)
            \<and> (faults w (SecretDelete (team_config_name (ct_TeamID req))) \<noteq> None
                \<longrightarrow> secrets w' = secrets w @ [teamSecret])"
proof -
  let ?n = "team_config_name (ct_TeamID req)"
  let ?w' = "snd (secret_Delete w3 ?n)"
  have name: "Name teamSecret = ?n" and f2: "faults w2 = faults w1"
    and s2: "secrets w2 = secrets w1 @ [teamSecret]"
    using createTeamConfigSecret_Inr[OF written] by simp_all
  have f1: "faults w1 = faults w" and s1: "secrets w1 = secrets w"
    using secret_Get_frame[OF absent] by simp_all
  have f3: "faults w3 = faults w2" and s3: "secrets w3 = secrets w2"
    using CreateTeamRateLimitPolicies_frame[OF publish] by simp_all
  have fresh: "\<not> list_ex (\<lambda>t. Name t = ?n) (secrets w)"
    using createTeamConfigSecret_fresh[OF written] name s1 by simp
  have f: "faults w3 (SecretDelete ?n) = faults w (SecretDelete ?n)"
    by (simp add: f1 f2 f3)
  have s: "secrets w3 = secrets w @ [teamSecret]"
    by (simp add: s1 s2 s3)
  have 1: "createTeam km w req0 = Some (Fail 500 ''Failed to apply team policies'', ?w')"
    by (simp add: createTeam_def bind valid absent written mgmt tier publish name)
  have 2: "createTeamInternal km w req0
             = Some (Some (Wrap ''failed to apply team policies: '' err), ?w')"
    by (simp add: createTeamInternal_def valid absent written mgmt tier publish name)
  have 3: "faults w (SecretDelete ?n) = None
           \<longrightarrow> \<not> list_ex (\<lambda>s. Name s = ?n) (secrets ?w')"
    using secret_Delete_removes[of w3 ?n] f by simp
  have 4: "calls ?w' = calls w3 @ [SecretDelete ?n]"
    by (simp add: secret_Delete_def Let_def split: option.splits if_splits)
  have 5: "faults w (SecretDelete ?n) = None \<longrightarrow> secrets ?w' = secrets w"
    using secret_Delete_performed[of w3 ?n "secrets w" teamSecret] f s name fresh by simp
  have 6: "faults w (SecretDelete ?n) \<noteq> None \<longrightarrow> secrets ?w' = secrets w @ [teamSecret]"
  proof
    assume "faults w (SecretDelete ?n) \<noteq> None"
    then obtain m where "faults w3 (SecretDelete ?n) = Some m"
      using f by auto
    from secret_Delete_refused[OF this] s show "secrets ?w' = secrets w @ [teamSecret]"
      by simp
  qed
  show ?thesis
    by (rule exI[of _ ?w']) (use 1 2 3 4 5 6 in simp)
qed

lemma isValid_t1: "isValidTeamID ''t1''"
  by (simp add: isValidTeamID_def isValidUserID_def validPattern_def lower_alnum_def)

theorem createTeam_publish_failure_witness:
  "\<exists>w'. createTeam km0 (cluster0\<lparr>faults := webhook_denies\<rparr>) (team_request ''t1'' ''standard'' 0)
           = Some (Fail 500 ''Failed to apply team policies'', w')
        \<and> createTeamInternal km0 (cluster0\<lparr>faults := webhook_denies\<rparr>)
             (team_request ''t1'' ''standard'' 0)
           = Some (Some (Wrap ''failed to apply team policies: ''
                          (Wrap ''failed to create token rate limit policy: ''
                            (Wrap ''failed to create TokenRateLimitPolicy: ''
                              (Base ''admission webhook denied the request'')))), w')
        \<and> last (calls w') = SecretDelete ''team-t1-config''
        \<and> \<not> list_ex (\<lambda>s. Name s = ''team-t1-config'') (secrets w')
        \<and> secrets w' = []"
proof -
  let ?w = "cluster0\<lparr>faults := webhook_denies\<rparr>"
  let ?req = "team_request ''t1'' ''standard'' 0"
  let ?n = "team_config_name (ct_TeamID ?req)"
  let ?err = "Wrap ''failed to create token rate limit policy: ''
                (Wrap ''failed to create TokenRateLimitPolicy: ''
                  (Base ''admission webhook denied the request''))"
  have h0: "required_errors [(''TeamID'', ct_TeamID ?req), (''TeamName'', ct_TeamName ?req),
                            (''DefaultTier'', ct_DefaultTier ?req)] = None"
    by (simp add: required_errors_def team_request_def)
  have h1: "validateTeamRequest km0 ?w ?req = Inr ?req"
    by (simp add: validateTeamRequest_def isValid_t1 team_request_def km0_def
        getAvailableTiers_def)
  obtain g w1 where h2: "secret_Get ?w ?n = (g, w1)"
    by (cases "secret_Get ?w ?n")
  have g: "g = Inl (Base (''secrets '' @ quote ?n @ '' not found''))"
    and w1: "w1 = called ?w (SecretGet ?n)"
    using h2 by (auto simp: secret_Get_def Let_def cluster0_def webhook_denies_def)
  obtain c w2 where h3: "createTeamConfigSecret km0 w1 ?req = (c, w2)"
    by (cases "createTeamConfigSecret km0 w1 ?req")
  then obtain s where c: "c = Inr s"
    by (auto simp: createTeamConfigSecret_def secret_Create_def Let_def w1 cluster0_def
        webhook_denies_def)
  have h4: "enablePolicyMgmt km0" by (simp add: km0_def)
  have h5: "GetTierLimits (environ w2) (ct_DefaultTier ?req) = Some standard_limits"
    by (simp add: team_request_def)
  obtain e w3 where h6: "CreateTeamRateLimitPolicies (policyEngine km0) w2 (ct_TeamID ?req)
                    (override_limits ?req standard_limits) = (e, w3)"
    by (cases "CreateTeamRateLimitPolicies (policyEngine km0) w2 (ct_TeamID ?req)
                    (override_limits ?req standard_limits)")
  have fw2: "faults w2 = webhook_denies"
    using createTeamConfigSecret_Inr[OF h3[unfolded c]] by (simp add: w1)
  from h6 have e: "e = Some ?err"
    by (auto simp: CreateTeamRateLimitPolicies_def CreateTeamTokenRateLimit_def
        create_or_update_def dyn_Create_def Let_def fw2 webhook_denies_def
        override_limits_def team_request_def standard_limits_def HasPrefix_def
        split: prod.splits)
  have h7: "faults ?w (SecretDelete ?n) = None"
    by (simp add: webhook_denies_def)
  have h8: "secrets ?w = []"
    by (simp add: cluster0_def)
  from createTeam_publish_failure[OF h0 h1 h2[unfolded g] h3[unfolded c] h4 h5 h6[unfolded e]] h7 h8
  show ?thesis
    by (auto simp: team_config_name_def team_request_def)
qed

text \<open>
  Claim C1 as the specification words it does not hold. On an empty cluster whose policy
  store refuses the create and whose record store refuses the delete, the request for
  team \<^verbatim>\<open>t1\<close> is answered 500 and the record \<^verbatim>\<open>team-t1-config\<close> exists afterwards: the
  result of the compensating delete is dropped. And the answer of the handler carries
  the same fixed text for two different publish errors, neither of which appears in it.
\<close>

theorem createTeam_publish_failure_counterexample:
  "answer_and_records
     (createTeam km0 (cluster0\<lparr>faults := store_refuses ''admission webhook denied the request''\<rparr>)
        (team_request ''t1'' ''standard'' 0))
     = Some (Fail 500 ''Failed to apply team policies'', [''team-t1-config''])
   \<and> answer_and_records
       (createTeam km0 (cluster0\<lparr>faults := store_refuses ''etcdserver: request timed out''\<rparr>)
          (team_request ''t1'' ''standard'' 0))
     = Some (Fail 500 ''Failed to apply team policies'', [''team-t1-config''])"
  by (simp add: fixture_defs manager_defs engine_defs store_defs standard_limits_def Let_def)

section \<open>Idempotent publication\<close>

lemma Contains_suffix: "Contains (xs @ sub) sub"
proof (induction xs)
  case Nil
  show ?case by (cases sub) (simp_all add: HasPrefix_def)
next
  case (Cons x xs)
  then show ?case by simp
qed

lemma find_append_absent: "\<not> list_ex P xs \<Longrightarrow> find P (xs @ ys) = find P ys"
  by (induction xs) auto


lemma filter_absent: "\<not> list_ex P xs \<Longrightarrow> filter P xs = []"
  by (induction xs) auto

lemma stored_at_pair [simp]:
  "stored_at gvr n (k, p) = (k = rkey gvr \<and> pol_name p = n)"
  by (simp add: stored_at_def)

lemma already_exists_message [simp]:
  "Contains (Error (policy_already_exists gvr n)) ''already exists''"
proof -
  have "Error (policy_already_exists gvr n)
        = (Resource gvr @ ''.'' @ Group gvr @ '' '' @ quote n @ '' '') @ ''already exists''"
    by (simp add: policy_already_exists_def)
  then show ?thesis using Contains_suffix by metis
qed




lemma rkeys_differ [simp]:
  "rkey tokenRateLimitGVR \<noteq> rkey rateLimitGVR" "rkey rateLimitGVR \<noteq> rkey tokenRateLimitGVR"
  by (simp_all add: rkey_def tokenRateLimitGVR_def rateLimitGVR_def)

lemma policy_names [simp]:
  "pol_name (token_policy pe w t n l) = n" "pol_name (request_policy pe w t n l) = n"
  by (simp_all add: token_policy_def request_policy_def)







section \<open>Deleting a key by its secret\<close>

lemma validate_membership_frame:
  assumes "validateTeamMembershipFromAPIKey km w t u = Some (r, w')"
  shows "w' = called w (SecretList (member_selector t u))"
proof -
  obtain l w1 where l: "secret_List w (member_selector t u) = (l, w1)" by force
  have w1: "w1 = called w (SecretList (member_selector t u))"
    using secret_List_frame[OF l] .
  show ?thesis
  proof (cases l)
    case (Inl e)
    with assms l w1 show ?thesis by (simp add: validateTeamMembershipFromAPIKey_def)
  next
    case (Inr xs)
    with assms l w1 show ?thesis
      by (cases xs)
         (simp_all add: validateTeamMembershipFromAPIKey_def Let_def
            split: if_splits option.splits)
  qed
qed

lemma keyHash_cong: "sha256 w' = sha256 w \<Longrightarrow> keyHash w' k = keyHash w k"
  by (simp add: keyHash_def)

lemma length_keyHash [simp]: "length (keyHash w k) = 64"
  by (simp add: keyHash_def hex_EncodeToString_def)

lemma createEnhancedKeySecret_Inr:
  assumes "createEnhancedKeySecret km w teamID req apiKey member = (Inr s, w')"
  shows "secrets w' = secrets w @ [s]
       \<and> map_of (Labels s) ''maas/key-sha256'' = Some (take 32 (keyHash w apiKey))
       \<and> faults w' = faults w \<and> sha256 w' = sha256 w
       \<and> \<not> list_ex (\<lambda>t. Name t = Name s) (secrets w)"
proof -
  obtain x where x: "createEnhancedKeySecret km w teamID req apiKey member = secret_Create w x"
    and lab: "map_of (Labels x) ''maas/key-sha256'' = Some (take 32 (keyHash w apiKey))"
    by (simp add: createEnhancedKeySecret_def Let_def)
  from assms[unfolded x] have "s = x" "secrets w' = secrets w @ [s]" "faults w' = faults w"
    "sha256 w' = sha256 w" "\<not> list_ex (\<lambda>t. Name t = Name s) (secrets w)"
    by (auto simp: secret_Create_def Let_def split: option.splits if_splits)
  with lab show ?thesis by simp
qed

lemma token_length:
  assumes "generateSecureToken src 48 = (TokenOk k, src')"
  shows "length k = 48"
  using generateSecureToken_eq[of 48 src] assms length_le_EncodeToString
    [of "map (rand_stream src) [rand_pos src ..< rand_pos src + 48]"]
  by (auto split: option.splits)

lemma team_member_info_frame:
  assumes "team_member_info km w t req = Some (r, w')"
  shows "secrets w' = secrets w \<and> faults w' = faults w \<and> sha256 w' = sha256 w"
  using assms
  by (auto simp: team_member_info_def dest!: validate_membership_frame
      split: if_splits option.splits)

lemma createTeamKey_OK:
  assumes "createTeamKey km w teamID req = Some (OK resp, w')"
  shows "\<exists>s. secrets w' = secrets w @ [s] \<and> Name s = kr_SecretName resp
       \<and> map_of (Labels s) ''maas/key-sha256'' = Some (take 32 (keyHash w (kr_APIKey resp)))
       \<and> faults w' = faults w \<and> sha256 w' = sha256 w
       \<and> length (kr_APIKey resp) = 48
       \<and> \<not> list_ex (\<lambda>t. Name t = Name s) (secrets w)"
proof (cases "required_errors [(''UserID'', ck_UserID req)]")
  case (Some m)
  with assms show ?thesis by (simp add: createTeamKey_def)
next
  case None
  note d = createTeamKey_def None
  obtain g w1 where g: "secret_Get w (team_config_name teamID) = (g, w1)" by force
  show ?thesis
  proof (cases g)
    case (Inl e)
    with assms g show ?thesis by (simp add: d)
  next
    case (Inr ts)
    note d = d g Inr
    have w1: "w1 = called w (SecretGet (team_config_name teamID))"
      using secret_Get_frame[OF g] .
    show ?thesis
    proof (cases "team_member_info km w1 teamID req")
      case None
      with assms show ?thesis by (simp add: d)
    next
      case (Some mr)
      obtain r w2 where mr: "mr = (r, w2)" by force
      note tm = Some[unfolded mr]
      show ?thesis
      proof (cases r)
        case (Inl e)
        with assms tm show ?thesis by (simp add: d)
      next
        case (Inr member)
        note d = d tm Inr
        obtain t src where t: "generateSecureToken (rng w2) 48 = (t, src)" by force
        show ?thesis
        proof (cases t)
          case (TokenErr e)
          with assms t show ?thesis by (simp add: d)
        next
          case (TokenPanic m)
          with assms t show ?thesis by (simp add: d)
        next
          case (TokenOk apiKey)
          note d = d t TokenOk
          obtain c w3 where c: "createEnhancedKeySecret km (w2\<lparr>rng := src\<rparr>) teamID req apiKey member
                                 = (c, w3)" by force
          show ?thesis
          proof (cases c)
            case (Inl e)
            with assms c show ?thesis by (simp add: d split: if_splits)
          next
            case (Inr s)
            note d = d c Inr
            show ?thesis
            proof (cases "buildInheritedPolicies km w3 member")
              case None
              with assms show ?thesis by (simp add: d)
            next
              case (Some ip)
              with assms have r: "kr_APIKey resp = apiKey" "kr_SecretName resp = Name s" "w' = w3"
                by (auto simp: d)
              have f2: "secrets w2 = secrets w1" "faults w2 = faults w1" "sha256 w2 = sha256 w1"
                using team_member_info_frame[OF tm] by simp_all
              from createEnhancedKeySecret_Inr[OF c[unfolded Inr]]
              have "secrets w3 = secrets w @ [s]" "faults w3 = faults w" "sha256 w3 = sha256 w"
                "\<not> list_ex (\<lambda>t. Name t = Name s) (secrets w)"
                "map_of (Labels s) ''maas/key-sha256''
                   = Some (take 32 (keyHash (w2\<lparr>rng := src\<rparr>) apiKey))"
                by (simp_all add: f2 w1)
              moreover have "keyHash (w2\<lparr>rng := src\<rparr>) apiKey = keyHash w apiKey"
                by (rule keyHash_cong) (simp add: w1 f2)
              moreover have "length apiKey = 48" by (rule token_length[OF t[unfolded TokenOk]])
              ultimately show ?thesis using r by auto
            qed
          qed
        qed
      qed
    qed
  qed
qed

lemma matches_single [simp]: "matches [(k, v)] s = (map_of (Labels s) k = Some v)"
  by (simp add: matches_def)

lemma filter_all: "\<not> list_ex (\<lambda>x. \<not> P x) xs \<Longrightarrow> filter P xs = xs"
  by (induction xs) auto

text \<open>A key whose fingerprint no record carries: the one call is the list by that
  fingerprint, the answer is 404 and no record changes.\<close>

lemma deleteKey_unknown:
  assumes "required_errors [(''Key'', key)] = None"
    and "faults w (SecretList [(''maas/key-sha256'', take 32 (keyHash w key))]) = None"
    and "\<not> list_ex (matches [(''maas/key-sha256'', take 32 (keyHash w key))]) (secrets w)"
  shows "deleteKey km w key
         = (Fail 404 ''API key not found'',
            called w (SecretList [(''maas/key-sha256'', take 32 (keyHash w key))]))"
  using assms by (simp add: deleteKey_def secret_List_def Let_def filter_absent)

text \<open>
  Claim C6. A request to create a key is answered with 200, in a store where no other
  record carries the fingerprint of the new key (the first 32 hexadecimal digits of its
  SHA-256 digest) and which does not refuse the list and the delete. Then the request
  has added one record, named in the answer, which carries under \<^verbatim>\<open>maas/key-sha256\<close> the
  32 characters that \<^verbatim>\<open>deleteKey\<close> computes from the key. \<^verbatim>\<open>deleteKey\<close> with the key answers
  200 and names that record; its calls are the list by that fingerprint and the delete
  of that record, in this order; afterwards the record is gone and the records are
  exactly those from before the key was created. \<^verbatim>\<open>deleteKey\<close> with the same key once
  more lists by the same fingerprint, answers 404 and changes no record.
\<close>

theorem deleteKey_roundtrip:
  assumes created: "createTeamKey km w teamID req = Some (OK resp, w1)"
    and unique: "\<not> list_ex (matches [(''maas/key-sha256'', take 32 (keyHash w (kr_APIKey resp)))])
                     (secrets w)"
    and list_ok: "faults w (SecretList [(''maas/key-sha256'',
                                         take 32 (keyHash w (kr_APIKey resp)))]) = None"
    and delete_ok: "faults w (SecretDelete (kr_SecretName resp)) = None"
  shows "\<exists>s w2 w3.
      secrets w1 = secrets w @ [s]
    \<and> Name s = kr_SecretName resp
    \<and> find (\<lambda>t. Name t = kr_SecretName resp) (secrets w1) = Some s
    \<and> map_of (Labels s) ''maas/key-sha256'' = Some (take 32 (keyHash w1 (kr_APIKey resp)))
    \<and> length (take 32 (keyHash w1 (kr_APIKey resp))) = 32
    \<and> deleteKey km w1 (kr_APIKey resp) = (OK (kr_SecretName resp), w2)
    \<and> calls w2 = calls w1 @ [SecretList [(''maas/key-sha256'',
                                           take 32 (keyHash w1 (kr_APIKey resp)))],
                              SecretDelete (kr_SecretName resp)]
    \<and> secrets w2 = secrets w
    \<and> \<not> list_ex (\<lambda>t. Name t = kr_SecretName resp) (secrets w2)
    \<and> deleteKey km w2 (kr_APIKey resp) = (Fail 404 ''API key not found'', w3)
    \<and> calls w3 = calls w2 @ [SecretList [(''maas/key-sha256'',
                                           take 32 (keyHash w1 (kr_APIKey resp)))]]
    \<and> secrets w3 = secrets w2"
proof -
  let ?key = "kr_APIKey resp"
  let ?fp = "take 32 (keyHash w ?key)"
  let ?sel = "[(''maas/key-sha256'', ?fp)]"
  from createTeamKey_OK[OF created] obtain s where
    s: "secrets w1 = secrets w @ [s]" "Name s = kr_SecretName resp"
       "map_of (Labels s) ''maas/key-sha256'' = Some ?fp"
       "faults w1 = faults w" "sha256 w1 = sha256 w" "length ?key = 48"
       "\<not> list_ex (\<lambda>t. Name t = Name s) (secrets w)"
    by blast
  have kh: "keyHash w1 ?key = keyHash w ?key" by (rule keyHash_cong) (rule s(5))
  have nonempty: "required_errors [(''Key'', ?key)] = None"
    using s(6) by (auto simp: required_errors_def)
  have found: "filter (matches ?sel) (secrets w1) = [s]"
    using unique s(3) by (simp add: s(1) filter_absent)
  let ?wl = "called w1 (SecretList ?sel)"
  have l1: "secret_List w1 ?sel = (Inr [s], ?wl)"
    using list_ok found by (simp add: secret_List_def Let_def s(4))
  let ?w2 = "(called ?wl (SecretDelete (kr_SecretName resp)))\<lparr>secrets := secrets w\<rparr>"
  let ?w3 = "called ?w2 (SecretList ?sel)"
  have rest: "filter (\<lambda>t. Name t \<noteq> kr_SecretName resp) (secrets w1) = secrets w"
    using s(7) by (simp add: s(1) s(2)[symmetric] filter_all)
  have d1: "secret_Delete ?wl (kr_SecretName resp) = (None, ?w2)"
    using delete_ok rest by (simp add: secret_Delete_def Let_def s(1,4) s(2)[symmetric])
  have first: "deleteKey km w1 ?key = (OK (kr_SecretName resp), ?w2)"
    by (simp add: deleteKey_def nonempty kh l1 d1 s(2))
  have gone: "\<not> list_ex (\<lambda>t. Name t = kr_SecretName resp) (secrets ?w2)"
    using s(7) by (simp add: s(2)[symmetric])
  have kh2: "keyHash ?w2 ?key = keyHash w ?key" by (rule keyHash_cong) (simp add: s(5))
  have second: "deleteKey km ?w2 ?key = (Fail 404 ''API key not found'', ?w3)"
    using deleteKey_unknown[of ?key ?w2 km] nonempty list_ok unique
    by (simp add: kh2 s(4))
  have fnd: "find (\<lambda>t. Name t = kr_SecretName resp) (secrets w1) = Some s"
    using s(7) by (simp add: s(1) s(2)[symmetric] find_append_absent)
  have trace1: "calls ?w2 = calls w1 @ [SecretList ?sel, SecretDelete (kr_SecretName resp)]"
    by (simp add: called_def)
  have trace2: "calls ?w3 = calls ?w2 @ [SecretList ?sel]"
    by (simp add: called_def)
  have kept1: "secrets ?w2 = secrets w" by simp
  have kept2: "secrets ?w3 = secrets ?w2" by (simp add: called_def)
  show ?thesis
  proof (rule exI[of _ s], rule exI[of _ ?w2], rule exI[of _ ?w3], intro conjI)
    show "secrets w1 = secrets w @ [s]" by (rule s(1))
    show "Name s = kr_SecretName resp" by (rule s(2))
    show "find (\<lambda>t. Name t = kr_SecretName resp) (secrets w1) = Some s" by (rule fnd)
    show "map_of (Labels s) ''maas/key-sha256'' = Some (take 32 (keyHash w1 ?key))"
      using s(3) by (simp add: kh)
    show "length (take 32 (keyHash w1 ?key)) = 32" by simp
    show "deleteKey km w1 ?key = (OK (kr_SecretName resp), ?w2)" by (rule first)
    show "calls ?w2 = calls w1 @ [SecretList [(''maas/key-sha256'', take 32 (keyHash w1 ?key))],
                                  SecretDelete (kr_SecretName resp)]"
      using trace1 by (simp add: kh)
    show "secrets ?w2 = secrets w" by (rule kept1)
    show "\<not> list_ex (\<lambda>t. Name t = kr_SecretName resp) (secrets ?w2)" by (rule gone)
    show "deleteKey km ?w2 ?key = (Fail 404 ''API key not found'', ?w3)" by (rule second)
    show "calls ?w3 = calls ?w2 @ [SecretList [(''maas/key-sha256'', take 32 (keyHash w1 ?key))]]"
      using trace2 by (simp add: kh)
    show "secrets ?w3 = secrets ?w2" by (rule kept2)
  qed
qed

theorem deleteKey_roundtrip_witness:
  "\<exists>resp w1 w2 w3.
      createTeamKey km0 (cluster0\<lparr>secrets := [team_record ''default'' ''standard'']\<rparr>) ''default''
        (key_request ''alice'') = Some (OK resp, w1)
    \<and> deleteKey km0 w1 (kr_APIKey resp) = (OK (kr_SecretName resp), w2)
    \<and> secrets w2 = [team_record ''default'' ''standard'']
    \<and> deleteKey km0 w2 (kr_APIKey resp) = (Fail 404 ''API key not found'', w3)
    \<and> secrets w3 = [team_record ''default'' ''standard'']"
proof -
  let ?w = "cluster0\<lparr>secrets := [team_record ''default'' ''standard'']\<rparr>"
  have "\<exists>resp w1. createTeamKey km0 ?w ''default'' (key_request ''alice'') = Some (OK resp, w1)"
    by (simp add: createTeamKey_def team_member_info_def required_errors_def key_request_def
        secret_Get_def team_record_def team_config_name_def cluster0_def km0_def Let_def
        generateSecureToken_eq createEnhancedKeySecret_def secret_Create_def
        buildInheritedPolicies_def called_def)
  then obtain resp w1 where
    c: "createTeamKey km0 ?w ''default'' (key_request ''alice'') = Some (OK resp, w1)"
    by blast
  have u: "\<not> list_ex (matches [(''maas/key-sha256'', take 32 (keyHash ?w (kr_APIKey resp)))])
              (secrets ?w)"
    by (simp add: team_record_def)
  have f: "faults ?w (SecretList [(''maas/key-sha256'',
                                   take 32 (keyHash ?w (kr_APIKey resp)))]) = None"
    "faults ?w (SecretDelete (kr_SecretName resp)) = None"
    by (simp_all add: cluster0_def)
  from deleteKey_roundtrip[OF c u f] obtain w2 w3 where
    r: "deleteKey km0 w1 (kr_APIKey resp) = (OK (kr_SecretName resp), w2)"
       "secrets w2 = secrets ?w"
       "deleteKey km0 w2 (kr_APIKey resp) = (Fail 404 ''API key not found'', w3)"
       "secrets w3 = secrets w2"
    by blast
  have kept: "secrets w2 = [team_record ''default'' ''standard'']"
    "secrets w3 = [team_record ''default'' ''standard'']"
    using r(2,4) by simp_all
  show ?thesis
    by (rule exI[of _ resp], rule exI[of _ w1], rule exI[of _ w2], rule exI[of _ w3])
      (simp add: c r(1,3) kept)
qed

section \<open>Membership and the first key of a user\<close>

text \<open>
  For a team other than \<^verbatim>\<open>default\<close>, a user without a key labelled with the team and
  the user is refused, and nothing is written: this includes the first request of every
  user, since only \<^verbatim>\<open>createEnhancedKeySecret\<close> writes such keys.
\<close>

lemma first_key_rejected:
  assumes team: "teamID \<noteq> ''default''" and user: "ck_UserID req \<noteq> []"
    and exists: "secret_Get w (team_config_name teamID) = (Inr teamSecret, w1)"
    and nokey: "\<not> list_ex (matches (member_selector teamID (ck_UserID req))) (secrets w)"
    and list_ok: "faults w (SecretList (member_selector teamID (ck_UserID req))) = None"
  shows "\<exists>w'. createTeamKey km w teamID req
               = Some (Fail 403 ''User is not a member of this team'', w')
            \<and> secrets w' = secrets w"
proof -
  have w1: "secrets w1 = secrets w" "faults w1 = faults w"
    using secret_Get_frame[OF exists] by simp_all
  have b: "required_errors [(''UserID'', ck_UserID req)] = None"
    using user by (simp add: required_errors_def)
  let ?sel = "member_selector teamID (ck_UserID req)"
  have l: "secret_List w1 ?sel = (Inr [], called w1 (SecretList ?sel))"
    using nokey list_ok by (simp add: secret_List_def Let_def w1 filter_absent)
  have v: "validateTeamMembershipFromAPIKey km w1 teamID (ck_UserID req)
      = Some (Inl (Base (''user '' @ ck_UserID req @ '' is not a member of team '' @ teamID)),
              called w1 (SecretList ?sel))"
    by (simp add: validateTeamMembershipFromAPIKey_def l)
  show ?thesis
    by (simp add: createTeamKey_def b exists team_member_info_def team v w1)
qed

text \<open>
  For the team \<^verbatim>\<open>default\<close> the member is made up from the tier of the default team: a
  user without any key gets one.
\<close>

lemma default_team_needs_no_membership:
  "\<exists>resp w1.
      createTeamKey km0 (cluster0\<lparr>secrets := [team_record ''default'' ''standard'']\<rparr>) ''default''
        (key_request ''alice'') = Some (OK resp, w1)
    \<and> kr_Tier resp = ''standard'' \<and> kr_TokenLimit resp = 10000"
  by (simp add: createTeamKey_def team_member_info_def required_errors_def key_request_def
      secret_Get_def team_record_def team_config_name_def cluster0_def km0_def Let_def
      generateSecureToken_eq createEnhancedKeySecret_def secret_Create_def
      buildInheritedPolicies_def called_def standard_limits_def)

text \<open>
  Claim C3. The claim: the first \<^verbatim>\<open>CreateAPIKey\<close> for a (team, user) pair of a team other
  than \<^verbatim>\<open>default\<close> succeeds and establishes membership. In the code it is refused: the
  team \<^verbatim>\<open>t1\<close> is created in an empty cluster, and the first key requested for it, for
  the user \<^verbatim>\<open>alice\<close>, is answered 403 ``User is not a member of this team''.
\<close>

theorem first_team_key_is_rejected:
  "Option.bind (on_success (createTeam km0 cluster0 (team_request ''t1'' ''standard'' 0)))
     (\<lambda>w1. map_option fst (createTeamKey km0 w1 ''t1'' (key_request ''alice'')))
   = Some (Fail 403 ''User is not a member of this team'')"
  by (simp add: fixture_defs manager_defs engine_defs store_defs standard_limits_def Let_def)

section \<open>Deleting a team\<close>

text \<open>
  The cascade of \<^verbatim>\<open>deleteTeam\<close> on an existing team: whatever the outcome of the policy
  deletes and of the key deletion, the calls are, in this order, the two policy deletes,
  the deletion of the keys of the team, and the delete of the team record. If the store
  does not refuse the last one, the team record is gone afterwards.
\<close>

lemma dyn_Delete_calls:
  "dyn_Delete x gvr m = (e, x') \<Longrightarrow> calls x' = calls x @ [PolicyDelete gvr m]"
  by (auto simp: dyn_Delete_def Let_def split: option.splits if_splits)

lemma DeleteTeamPolicies_calls:
  assumes "DeleteTeamPolicies pe x t = (e, x')"
  shows "calls x' = calls x @
      [PolicyDelete tokenRateLimitGVR (''team-'' @ t @ ''-token-limits''),
       PolicyDelete rateLimitDeleteGVR (''team-'' @ t @ ''-request-limits'')]"
proof -
  obtain e1 x1 where a: "dyn_Delete x tokenRateLimitGVR (''team-'' @ t @ ''-token-limits'') = (e1, x1)"
    by force
  obtain e2 x2 where b: "dyn_Delete x1 rateLimitDeleteGVR (''team-'' @ t @ ''-request-limits'') = (e2, x2)"
    by force
  have "x' = x2"
    using assms a b
    by (auto simp: DeleteTeamPolicies_def DeleteTeamTokenRateLimit_def
        DeleteTeamRequestRateLimit_def split: option.splits)
  with dyn_Delete_calls[OF a] dyn_Delete_calls[OF b] show ?thesis by simp
qed

lemma secret_DeleteCollection_calls:
  "secret_DeleteCollection x sel = (e, x') \<Longrightarrow> calls x' = calls x @ [SecretDeleteCollection sel]"
  by (auto simp: secret_DeleteCollection_def Let_def split: option.splits)

lemma secret_Delete_calls:
  "secret_Delete x m = (e, x') \<Longrightarrow> calls x' = calls x @ [SecretDelete m]"
  by (auto simp: secret_Delete_def Let_def split: option.splits if_splits)

lemma secret_Get_Inr_name:
  "secret_Get w n = (Inr s, w') \<Longrightarrow> Name s = n"
  by (auto simp: secret_Get_def Let_def find_Some_iff split: option.splits)

lemma deleteTeam_cascade:
  assumes exists: "secret_Get w (team_config_name teamID) = (Inr teamSecret, w1)"
    and mgmt: "enablePolicyMgmt km"
  shows "\<exists>r w'. deleteTeam km w teamID = (r, w')
    \<and> calls w' = calls w @
      [SecretGet (team_config_name teamID),
       PolicyDelete tokenRateLimitGVR (''team-'' @ teamID @ ''-token-limits''),
       PolicyDelete rateLimitDeleteGVR (''team-'' @ teamID @ ''-request-limits''),
       SecretDeleteCollection (team_keys_selector teamID),
       SecretDelete (team_config_name teamID)]
    \<and> (faults w (SecretDelete (team_config_name teamID)) = None
        \<longrightarrow> \<not> list_ex (\<lambda>s. Name s = team_config_name teamID) (secrets w'))
    \<and> (faults w (SecretDelete (team_config_name teamID)) = None
         \<and> \<not> matches (team_keys_selector teamID) teamSecret
        \<longrightarrow> r = OK teamID)"
proof -
  let ?n = "team_config_name teamID"
  have n: "Name teamSecret = ?n" by (rule secret_Get_Inr_name[OF exists])
  have w1: "w1 = called w (SecretGet ?n)" using secret_Get_frame[OF exists] .
  obtain e2 w2 where p: "DeleteTeamPolicies (policyEngine km) w1 teamID = (e2, w2)" by force
  obtain e3 w3 where k: "deleteAllTeamKeys km w2 teamID = (e3, w3)" by force
  obtain e4 w4 where t: "secret_Delete w3 ?n = (e4, w4)" by force
  have c2: "calls w2 = calls w1 @
      [PolicyDelete tokenRateLimitGVR (''team-'' @ teamID @ ''-token-limits''),
       PolicyDelete rateLimitDeleteGVR (''team-'' @ teamID @ ''-request-limits'')]"
    by (rule DeleteTeamPolicies_calls[OF p])
  have c3: "calls w3 = calls w2 @ [SecretDeleteCollection (team_keys_selector teamID)]"
    using k by (simp add: deleteAllTeamKeys_def secret_DeleteCollection_calls)
  have c4: "calls w4 = calls w3 @ [SecretDelete ?n]" by (rule secret_Delete_calls[OF t])
  have r: "deleteTeam km w teamID
      = (case e4 of Some err \<Rightarrow> Fail 500 ''Failed to delete team'' | None \<Rightarrow> OK teamID, w4)"
    by (simp add: deleteTeam_def exists mgmt p k t n Let_def split: option.splits)
  have f3: "faults w3 = faults w"
  proof -
    have "faults w2 = faults w1"
      using p
      by (auto simp: DeleteTeamPolicies_def DeleteTeamTokenRateLimit_def
          DeleteTeamRequestRateLimit_def dest!: dyn_Delete_frame split: prod.splits option.splits)
    moreover have "faults w3 = faults w2"
      using k by (auto simp: deleteAllTeamKeys_def secret_DeleteCollection_def Let_def
          split: option.splits)
    ultimately show ?thesis by (simp add: w1)
  qed
  have gone: "faults w (SecretDelete ?n) = None
        \<longrightarrow> \<not> list_ex (\<lambda>s. Name s = ?n) (secrets w4)"
    using t f3 secret_Delete_removes[of w3 ?n] by auto
  have ok: "faults w (SecretDelete ?n) = None \<and> \<not> matches (team_keys_selector teamID) teamSecret
        \<longrightarrow> e4 = None"
  proof
    assume a: "faults w (SecretDelete ?n) = None \<and> \<not> matches (team_keys_selector teamID) teamSecret"
    have "teamSecret \<in> set (secrets w)"
      using exists by (auto simp: secret_Get_def Let_def find_Some_iff split: option.splits)
    moreover have "secrets w2 = secrets w"
      using p
      by (auto simp: DeleteTeamPolicies_def DeleteTeamTokenRateLimit_def w1
          DeleteTeamRequestRateLimit_def dest!: dyn_Delete_frame split: prod.splits option.splits)
    moreover have "secrets w3 = secrets w2
                   \<or> secrets w3 = filter (\<lambda>t. \<not> matches (team_keys_selector teamID) t) (secrets w2)"
      using k by (auto simp: deleteAllTeamKeys_def secret_DeleteCollection_def Let_def
          split: option.splits)
    ultimately have "teamSecret \<in> set (secrets w3)" using a by auto
    then have ex: "list_ex (\<lambda>s. Name s = ?n) (secrets w3)"
      using n by (auto simp: list_ex_iff)
    show "e4 = None"
      using t a ex f3 by (auto simp: secret_Delete_def Let_def)
  qed
  show ?thesis using r c2 c3 c4 gone ok by (auto simp: w1)
qed

text \<open>
  Claim C8. The claim: after \<^verbatim>\<open>CreateTeam\<close> and then \<^verbatim>\<open>DeleteTeam\<close> no enforcement policy of
  either kind remains. \<^verbatim>\<open>CreateTeamRequestRateLimit\<close> creates the request policy under
  \<^verbatim>\<open>kuadrant.io/v1\<close>, \<^verbatim>\<open>DeleteTeamRequestRateLimit\<close> deletes under \<^verbatim>\<open>kuadrant.io/v1beta3\<close>.
  In a cluster that serves \<^verbatim>\<open>ratelimitpolicies\<close> at \<^verbatim>\<open>v1\<close> only, the team \<^verbatim>\<open>t1\<close> with tier
  \<^verbatim>\<open>standard\<close> is created and deleted, both with answer 200: the delete of the request
  policy fails, the failure is dropped, and the policy \<^verbatim>\<open>team-t1-request-limits\<close> is still
  there when no record of the team is left.
\<close>

theorem delete_team_leaves_request_policy:
  "Option.bind (on_success (createTeam km0 cluster0 (team_request ''t1'' ''standard'' 0)))
     (\<lambda>w1. case deleteTeam km0 w1 ''t1'' of
              (r, w2) \<Rightarrow> Some (r, map Name (secrets w2), published_limits w2))
   = Some (OK ''t1'', [],
           [(''ratelimitpolicies'', ''team-t1-request-limits'', 120, ''1m'')])"
  by (simp add: fixture_defs manager_defs engine_defs store_defs standard_limits_def Let_def)

text \<open>With \<^verbatim>\<open>v1beta3\<close> served as well, the same two requests leave nothing behind.\<close>

lemma delete_team_cleans_up_when_v1beta3_served:
  "Option.bind (on_success (createTeam km0 (cluster0\<lparr>served := served cluster0 @ [rateLimitDeleteGVR]\<rparr>)
                               (team_request ''t1'' ''standard'' 0)))
     (\<lambda>w1. case deleteTeam km0 w1 ''t1'' of
              (r, w2) \<Rightarrow> Some (r, map Name (secrets w2), published_limits w2))
   = Some (OK ''t1'', [], [])"
  by (simp add: fixture_defs manager_defs engine_defs store_defs standard_limits_def Let_def)

section \<open>Policy sync\<close>

text \<open>\<^verbatim>\<open>syncTeamPolicies\<close> writes no record.\<close>

lemma syncTeamPolicies_keeps_records:
  assumes "syncTeamPolicies km w teamID bindErr = Some (r, w')"
  shows "secrets w' = secrets w"
proof -
  obtain g w1 where g: "secret_Get w (team_config_name teamID) = (g, w1)" by force
  have w1: "w1 = called w (SecretGet (team_config_name teamID))"
    using secret_Get_frame[OF g] .
  show ?thesis
    using assms g w1
    by (auto simp: syncTeamPolicies_def Let_def dest!: CreateTeamRateLimitPolicies_frame
        split: if_splits option.splits sum.splits prod.splits)
qed

text \<open>
  Claim C9. The claim: \<^verbatim>\<open>SyncTeamPolicy\<close> republishes the effective limits of the team,
  that is the defaults of its tier with its stored overrides. \<^verbatim>\<open>syncTeamPolicies\<close> reads
  the tier of the team record and nothing else. The team \<^verbatim>\<open>t1\<close> is created with tier
  \<^verbatim>\<open>standard\<close> and a token limit override of 500: the published token limit is 500 and the
  record stores the override. After the sync the published token limit is 10000, the
  default of the tier, and the record still stores 500.
\<close>

theorem sync_drops_team_overrides:
  "Option.bind (on_success (createTeam km0 cluster0 (team_request ''t1'' ''standard'' 500)))
     (\<lambda>w1. Some (published_limits w1,
                  map (\<lambda>s. lookup (Annotations s) ''maas/token-limit'') (secrets w1)))
   = Some ([(''tokenratelimitpolicies'', ''team-t1-token-limits'', 500, ''1m''),
            (''ratelimitpolicies'', ''team-t1-request-limits'', 120, ''1m'')], [''500''])
   \<and> Option.bind (on_success (createTeam km0 cluster0 (team_request ''t1'' ''standard'' 500)))
     (\<lambda>w1. Option.bind (on_success (syncTeamPolicies km0 w1 ''t1'' None))
        (\<lambda>w2. Some (published_limits w2,
                     map (\<lambda>s. lookup (Annotations s) ''maas/token-limit'') (secrets w2))))
   = Some ([(''tokenratelimitpolicies'', ''team-t1-token-limits'', 10000, ''1m''),
            (''ratelimitpolicies'', ''team-t1-request-limits'', 120, ''1m'')], [''500''])"
  by (simp add: fixture_defs manager_defs engine_defs store_defs standard_limits_def Let_def)

end
